theory Spec2Isabelle
  imports Complex_Main
begin

section \<open>Sentinel-2 atmospheric correction notebook\<close>

text \<open>
  A shallow embedding of the code cells of \<^verbatim>\<open>Sentinel2_Atmcorr.ipynb\<close>.
  Python floats are modelled as reals and Python integers as \<open>int\<close>. The notebook keeps
  its data in global variables (\<^verbatim>\<open>info\<close>, \<^verbatim>\<open>scene_date\<close>,
  \<^verbatim>\<open>solar_z\<close>, \<^verbatim>\<open>toa\<close>) and in one mutable \<^verbatim>\<open>SixS\<close> object
  \<^verbatim>\<open>s\<close>; the model passes the globals as a record and threads the
  \<^verbatim>\<open>SixS\<close> object through every call that mutates it. Every exception the
  notebook can raise is a value \<open>Inl e\<close>.
\<close>

subsection \<open>Exceptions\<close>

datatype error =
    KeyError string          \<comment> \<open>a Python dict lookup with a missing key\<close>
  | ZeroDivisionError        \<comment> \<open>Python float division by zero\<close>
  | ValueError               \<comment> \<open>a timestamp outside the years 1..9999\<close>
  | EEException string       \<comment> \<open>Earth Engine: a selected band does not exist\<close>
  | SixSError                \<comment> \<open>the 6S run failed\<close>
  | AttributeError           \<comment> \<open>an attribute of \<^verbatim>\<open>None\<close> is read\<close>

subsection \<open>Earth Engine images\<close>

text \<open>
  An \<^verbatim>\<open>ee.Image\<close> is an ordered sequence of named bands; a band holds its pixel
  values. The arithmetic of an image with a Python number works on every pixel of every
  band and keeps the band names. Earth Engine's \<^verbatim>\<open>divide\<close> returns 0 where the
  divisor is 0.
\<close>

type_synonym raster = "real list"
type_synonym band = "string \<times> raster"
type_synonym image = "band list"

definition bandNames :: "image \<Rightarrow> string list" where
  "bandNames img = map fst img"

definition ee_select :: "image \<Rightarrow> string \<Rightarrow> error + image" where
  "ee_select img bandname =
     (case find (\<lambda>b. fst b = bandname) img of
        None \<Rightarrow> Inl (EEException bandname)
      | Some b \<Rightarrow> Inr [b])"

definition ee_multiply :: "image \<Rightarrow> real \<Rightarrow> image" where
  "ee_multiply img c = map (\<lambda>(n, px). (n, map (\<lambda>v. v * c) px)) img"

definition ee_subtract :: "image \<Rightarrow> real \<Rightarrow> image" where
  "ee_subtract img c = map (\<lambda>(n, px). (n, map (\<lambda>v. v - c) px)) img"

definition ee_divide :: "image \<Rightarrow> real \<Rightarrow> image" where
  "ee_divide img c = map (\<lambda>(n, px). (n, map (\<lambda>v. if c = 0 then 0 else v / c) px)) img"

text \<open>
  \<^verbatim>\<open>addBands\<close> copies the bands of the first image and appends the bands of the
  second in their order. A band whose name is already taken is added under the first free
  name among \<open>name_1\<close>, \<open>name_2\<close>, ...
\<close>

fun digits :: "nat \<Rightarrow> string" where
  "digits n =
     (if n < 10 then [char_of (48 + n)] else digits (n div 10) @ [char_of (48 + n mod 10)])"

definition fresh_name :: "string list \<Rightarrow> string \<Rightarrow> string" where
  "fresh_name used name =
     (case find (\<lambda>c. c \<notin> set used)
             (name # map (\<lambda>k. name @ ''_'' @ digits k) [1 ..< Suc (Suc (length used))]) of
        None \<Rightarrow> name
      | Some c \<Rightarrow> c)"

fun addBands :: "image \<Rightarrow> image \<Rightarrow> image" where
  "addBands dst [] = dst"
| "addBands dst ((name, px) # src) = addBands (dst @ [(fresh_name (map fst dst) name, px)]) src"

subsection \<open>Spectral response functions (cell 8)\<close>

datatype PredefinedWavelengths =
    S2A_MSI_01 | S2A_MSI_02 | S2A_MSI_03 | S2A_MSI_04 | S2A_MSI_05 | S2A_MSI_06
  | S2A_MSI_07 | S2A_MSI_08 | S2A_MSI_09 | S2A_MSI_10 | S2A_MSI_11 | S2A_MSI_12

text \<open>
  Py6S's \<^verbatim>\<open>Wavelength\<close> takes a predefined sensor band or a wavelength in
  micrometres (the value a fresh \<^verbatim>\<open>SixS\<close> object starts with).
\<close>

datatype wavelength_arg = Predefined PredefinedWavelengths | Micrometres real

datatype wavelength = Wavelength wavelength_arg

definition bandSelect :: "(string \<times> PredefinedWavelengths) list" where
  "bandSelect =
     [(''B1'', S2A_MSI_01),
      (''B2'', S2A_MSI_02),
      (''B3'', S2A_MSI_03),
      (''B4'', S2A_MSI_04),
      (''B5'', S2A_MSI_05),
      (''B6'', S2A_MSI_06),
      (''B7'', S2A_MSI_07),
      (''B8'', S2A_MSI_08),
      (''B9'', S2A_MSI_09),
      (''B10'', S2A_MSI_10),
      (''B11'', S2A_MSI_11),
      (''B12'', S2A_MSI_12)]"

definition spectralResponseFunction :: "string \<Rightarrow> error + wavelength" where
  "spectralResponseFunction bandname =
     (case map_of bandSelect bandname of
        None \<Rightarrow> Inl (KeyError bandname)
      | Some w \<Rightarrow> Inr (Wavelength (Predefined w)))"

text \<open>The twelve band names of the table, in the order of the dict literal.\<close>

definition s2_band_names :: "string list" where
  "s2_band_names =
     [''B1'', ''B2'', ''B3'', ''B4'', ''B5'', ''B6'', ''B7'', ''B8'', ''B9'', ''B10'', ''B11'', ''B12'']"

definition s2_wavelengths :: "PredefinedWavelengths list" where
  "s2_wavelengths =
     [S2A_MSI_01, S2A_MSI_02, S2A_MSI_03, S2A_MSI_04, S2A_MSI_05, S2A_MSI_06,
      S2A_MSI_07, S2A_MSI_08, S2A_MSI_09, S2A_MSI_10, S2A_MSI_11, S2A_MSI_12]"

subsection \<open>Dates (Python's \<^verbatim>\<open>datetime\<close>)\<close>

text \<open>
  The notebook reads the month, the day and the day of the year of
  \<^verbatim>\<open>datetime.datetime.utcfromtimestamp(info['system:time_start']/1000)\<close>.
  The functions below follow the proleptic Gregorian calendar arithmetic of the Python
  standard library (\<^verbatim>\<open>_is_leap\<close>, \<^verbatim>\<open>_days_before_year\<close>,
  \<^verbatim>\<open>_days_in_month\<close>, \<^verbatim>\<open>_days_before_month\<close>, \<^verbatim>\<open>_ymd2ord\<close>,
  \<^verbatim>\<open>_ord2ymd\<close>); day ordinal 1 is 0001-01-01 and 1970-01-01 is 719163.
\<close>

definition DAYS_IN_MONTH :: "int list" where
  "DAYS_IN_MONTH = [-1, 31, 28, 31, 30, 31, 30, 31, 31, 30, 31, 30, 31]"

definition DAYS_BEFORE_MONTH :: "int list" where
  "DAYS_BEFORE_MONTH = [-1, 0, 31, 59, 90, 120, 151, 181, 212, 243, 273, 304, 334]"

definition is_leap :: "int \<Rightarrow> bool" where
  "is_leap year \<longleftrightarrow> year mod 4 = 0 \<and> (year mod 100 \<noteq> 0 \<or> year mod 400 = 0)"

definition days_before_year :: "int \<Rightarrow> int" where
  "days_before_year year = (let y = year - 1 in y * 365 + y div 4 - y div 100 + y div 400)"

definition days_in_month :: "int \<Rightarrow> int \<Rightarrow> int" where
  "days_in_month year month =
     (if month = 2 \<and> is_leap year then 29 else DAYS_IN_MONTH ! nat month)"

definition days_before_month :: "int \<Rightarrow> int \<Rightarrow> int" where
  "days_before_month year month =
     DAYS_BEFORE_MONTH ! nat month + (if month > 2 \<and> is_leap year then 1 else 0)"

definition ymd2ord :: "int \<Rightarrow> int \<Rightarrow> int \<Rightarrow> int" where
  "ymd2ord year month day = days_before_year year + days_before_month year month + day"

definition DI400Y :: int where "DI400Y = 146097"
definition DI100Y :: int where "DI100Y = 36524"
definition DI4Y :: int where "DI4Y = 1461"

definition ord2ymd :: "int \<Rightarrow> int \<times> int \<times> int" where
  "ord2ymd ordinal =
     (let n = ordinal - 1;
          n400 = n div DI400Y; n = n mod DI400Y;
          year = n400 * 400 + 1;
          n100 = n div DI100Y; n = n mod DI100Y;
          n4 = n div DI4Y; n = n mod DI4Y;
          n1 = n div 365; n = n mod 365;
          year = year + n100 * 100 + n4 * 4 + n1
      in if n1 = 4 \<or> n100 = 4 then (year - 1, 12, 31)
         else
           let leapyear = (n1 = 3 \<and> (n4 \<noteq> 24 \<or> n100 = 3));
               month = (n + 50) div 32;
               preceding = DAYS_BEFORE_MONTH ! nat month
                             + (if month > 2 \<and> leapyear then 1 else 0)
           in if preceding > n
              then (year, month - 1,
                    n - (preceding - (DAYS_IN_MONTH ! nat (month - 1)
                                        + (if month - 1 = 2 \<and> leapyear then 1 else 0))) + 1)
              else (year, month, n - preceding + 1))"

record datetime =
  dt_year :: int
  dt_month :: int
  dt_day :: int
  dt_hour :: int
  dt_minute :: int
  dt_second :: int
  dt_microsecond :: int

text \<open>Python's \<^verbatim>\<open>round\<close>: to the nearest integer, a tie to the even one.\<close>

definition py_round :: "real \<Rightarrow> int" where
  "py_round x =
     (let f = \<lfloor>x\<rfloor>; r = x - of_int f
      in if r < 1 / 2 then f else if r > 1 / 2 then f + 1 else if even f then f else f + 1)"

text \<open>
  \<^verbatim>\<open>utcfromtimestamp(t)\<close>: \<open>t\<close> is in seconds since 1970-01-01T00:00:00 UTC and is
  rounded to microseconds; a date outside the years 1 to 9999 is refused.
\<close>

definition utcfromtimestamp :: "real \<Rightarrow> error + datetime" where
  "utcfromtimestamp t =
     (let us = py_round (t * 1000000);
          secs = us div 1000000;
          days = secs div 86400;
          rest = secs mod 86400;
          ordinal = days + 719163
      in if ordinal < 1 \<or> ordinal > 3652059 then Inl ValueError
         else
           (case ord2ymd ordinal of
              (y, m, d) \<Rightarrow>
                Inr \<lparr>dt_year = y, dt_month = m, dt_day = d,
                     dt_hour = rest div 3600, dt_minute = (rest mod 3600) div 60,
                     dt_second = rest mod 60, dt_microsecond = us mod 1000000\<rparr>))"

text \<open>\<^verbatim>\<open>scene_date.timetuple().tm_yday\<close>: the day of the year, 1 for 1 January.\<close>

definition tm_yday :: "datetime \<Rightarrow> int" where
  "tm_yday dt = days_before_month (dt_year dt) (dt_month dt) + dt_day dt"

subsection \<open>The scene and its metadata (cells 3 and 4)\<close>

text \<open>
  \<^verbatim>\<open>info\<close> is the dict of the scene's properties; the entries the notebook reads
  are numbers. The global variables that the later cells read are collected in a record.
\<close>

record notebook =
  nb_info :: "string \<rightharpoonup> real"
  nb_scene_date :: datetime
  nb_solar_z :: real
  nb_toa :: image

definition load_scene :: "image \<Rightarrow> (string \<rightharpoonup> real) \<Rightarrow> error + notebook" where
  "load_scene S2 info =
     (let toa = ee_divide S2 10000 in
      case info ''system:time_start'' of
        None \<Rightarrow> Inl (KeyError ''system:time_start'')
      | Some time_start \<Rightarrow>
          (case utcfromtimestamp (time_start / 1000) of
             Inl e \<Rightarrow> Inl e
           | Inr scene_date \<Rightarrow>
               (case info ''MEAN_SOLAR_ZENITH_ANGLE'' of
                  None \<Rightarrow> Inl (KeyError ''MEAN_SOLAR_ZENITH_ANGLE'')
                | Some solar_z \<Rightarrow>
                    Inr \<lparr>nb_info = info, nb_scene_date = scene_date,
                         nb_solar_z = solar_z, nb_toa = toa\<rparr>)))"

subsection \<open>The 6S object (cell 7)\<close>

datatype AtmosProfile =
    NoGaseousAbsorption | Tropical | MidlatitudeSummer | MidlatitudeWinter
  | SubarcticSummer | SubarcticWinter | USStandard1962
  | UserWaterAndOzone real real

datatype AeroProfile =
    NoAerosols | Continental | Maritime | Urban | Desert | BiomassBurning | Stratospheric

record Geometry =
  solar_z :: real
  solar_a :: real
  view_z :: real
  view_a :: real
  day :: int
  month :: int

datatype sensor_altitude = SensorSeaLevel | SensorSatelliteLevel | SensorCustom real

datatype target_altitude = TargetSeaLevel | TargetCustom real

record Altitudes =
  sensor :: sensor_altitude
  target :: target_altitude

record Transmittance =
  downward :: real
  upward :: real
  total :: real

record Outputs =
  direct_solar_irradiance :: real
  diffuse_solar_irradiance :: real
  atmospheric_intrinsic_radiance :: real
  trans :: "string \<rightharpoonup> Transmittance"

text \<open>
  The fields of the \<^verbatim>\<open>SixS\<close> object that the notebook reads or writes; the
  extension part of the record stands for every other attribute of the object.
\<close>

record SixS =
  atmos_profile :: AtmosProfile
  aero_profile :: AeroProfile
  aot550 :: real
  geometry :: Geometry
  altitudes :: Altitudes
  wavelength :: wavelength
  outputs :: "Outputs option"

definition set_sensor_satellite_level :: "Altitudes \<Rightarrow> Altitudes" where
  "set_sensor_satellite_level a = a\<lparr>sensor := SensorSatelliteLevel\<rparr>"

definition set_target_custom_altitude :: "real \<Rightarrow> Altitudes \<Rightarrow> Altitudes" where
  "set_target_custom_altitude km a = a\<lparr>target := TargetCustom km\<rparr>"

text \<open>
  Cell 7, one update per assignment. \<open>s\<close> is the object that \<^verbatim>\<open>SixS()\<close> returns
  and \<open>Geometry_User\<close> the object that \<^verbatim>\<open>Geometry.User()\<close> returns; \<open>h2o\<close>,
  \<open>o3\<close>, \<open>aot\<close> and \<open>km\<close> are the values of cells 5 and 6.
\<close>

definition configure ::
  "'a SixS_scheme \<Rightarrow> Geometry \<Rightarrow> real \<Rightarrow> real \<Rightarrow> real \<Rightarrow> real \<Rightarrow> notebook \<Rightarrow> 'a SixS_scheme" where
  "configure s Geometry_User h2o o3 aot km nb =
     (let s = s\<lparr>atmos_profile := UserWaterAndOzone h2o o3\<rparr>;
          s = s\<lparr>aero_profile := Continental\<rparr>;
          s = s\<lparr>aot550 := aot\<rparr>;
          s = s\<lparr>geometry := Geometry_User\<rparr>;
          s = s\<lparr>geometry := (geometry s)\<lparr>view_z := 0\<rparr>\<rparr>;
          s = s\<lparr>geometry := (geometry s)\<lparr>solar_z := nb_solar_z nb\<rparr>\<rparr>;
          s = s\<lparr>geometry := (geometry s)\<lparr>month := dt_month (nb_scene_date nb)\<rparr>\<rparr>;
          s = s\<lparr>geometry := (geometry s)\<lparr>day := dt_day (nb_scene_date nb)\<rparr>\<rparr>;
          s = s\<lparr>altitudes := set_sensor_satellite_level (altitudes s)\<rparr>;
          s = s\<lparr>altitudes := set_target_custom_altitude km (altitudes s)\<rparr>
      in s)"

text \<open>
  \<^verbatim>\<open>s.run()\<close>: the 6S program is a function of the object, given as the parameter
  \<open>sixs\<close>; a successful run stores its outputs in the object, a failed run raises and
  leaves the object as it was.
\<close>

definition run ::
  "('a SixS_scheme \<Rightarrow> error + Outputs) \<Rightarrow> 'a SixS_scheme \<Rightarrow> 'a SixS_scheme \<times> (error + unit)" where
  "run sixs s =
     (case sixs s of
        Inl e \<Rightarrow> (s, Inl e)
      | Inr out \<Rightarrow> (s\<lparr>outputs := Some out\<rparr>, Inr ()))"

subsection \<open>TOA reflectance to radiance (cell 9)\<close>

definition radians :: "real \<Rightarrow> real" where
  "radians x = x * pi / 180"

definition toa_to_rad :: "notebook \<Rightarrow> string \<Rightarrow> error + image" where
  "toa_to_rad nb bandname =
     (case nb_info nb (''SOLAR_IRRADIANCE_'' @ bandname) of
        None \<Rightarrow> Inl (KeyError (''SOLAR_IRRADIANCE_'' @ bandname))
      | Some ESUN \<Rightarrow>
          (let solar_angle_correction = cos (radians (nb_solar_z nb));
               doy = tm_yday (nb_scene_date nb);
               d = 1 - 0.01672 * cos (0.9856 * (of_int doy - 4))
           in if pi * d\<^sup>2 = 0 then Inl ZeroDivisionError
              else
                (let multiplier = ESUN * solar_angle_correction / (pi * d\<^sup>2) in
                 case ee_select (nb_toa nb) bandname of
                   Inl e \<Rightarrow> Inl e
                 | Inr band \<Rightarrow> Inr (ee_multiply band multiplier))))"

subsection \<open>Radiance to surface reflectance (cell 10)\<close>

text \<open>
  \<^verbatim>\<open>surface_reflectance\<close> assigns to the global object \<^verbatim>\<open>s\<close> and runs it:
  the model takes the object and returns it with the result, also when an exception ends
  the call.
\<close>

definition surface_reflectance ::
  "('a SixS_scheme \<Rightarrow> error + Outputs) \<Rightarrow> notebook \<Rightarrow> string \<Rightarrow> 'a SixS_scheme
     \<Rightarrow> 'a SixS_scheme \<times> (error + image)" where
  "surface_reflectance sixs nb bandname s =
     (case spectralResponseFunction bandname of
        Inl e \<Rightarrow> (s, Inl e)
      | Inr w \<Rightarrow>
          (case run sixs (s\<lparr>wavelength := w\<rparr>) of
             (s, Inl e) \<Rightarrow> (s, Inl e)
           | (s, Inr _) \<Rightarrow>
               (case outputs s of
                  None \<Rightarrow> (s, Inl AttributeError)
                | Some out \<Rightarrow>
                    (let Edir = direct_solar_irradiance out;
                         Edif = diffuse_solar_irradiance out;
                         Lp = atmospheric_intrinsic_radiance out
                     in case trans out ''global_gas'' of
                          None \<Rightarrow> (s, Inl (KeyError ''global_gas''))
                        | Some gas \<Rightarrow>
                            (let absorb = upward gas in
                             case trans out ''total_scattering'' of
                               None \<Rightarrow> (s, Inl (KeyError ''total_scattering''))
                             | Some scattering \<Rightarrow>
                                 (let scatter = upward scattering;
                                      tau2 = absorb * scatter
                                  in case toa_to_rad nb bandname of
                                       Inl e \<Rightarrow> (s, Inl e)
                                     | Inr rad \<Rightarrow>
                                         (s, Inr (ee_divide
                                                    (ee_multiply (ee_subtract rad Lp) pi)
                                                    (tau2 * (Edir + Edif))))))))))"

subsection \<open>Atmospheric correction (cell 11)\<close>

definition atmospheric_correction ::
  "('a SixS_scheme \<Rightarrow> error + Outputs) \<Rightarrow> notebook \<Rightarrow> 'a SixS_scheme
     \<Rightarrow> 'a SixS_scheme \<times> (error + image)" where
  "atmospheric_correction sixs nb s =
     (case surface_reflectance sixs nb ''B2'' s of
        (s, Inl e) \<Rightarrow> (s, Inl e)
      | (s, Inr b) \<Rightarrow>
          (case surface_reflectance sixs nb ''B3'' s of
             (s, Inl e) \<Rightarrow> (s, Inl e)
           | (s, Inr g) \<Rightarrow>
               (case surface_reflectance sixs nb ''B4'' s of
                  (s, Inl e) \<Rightarrow> (s, Inl e)
                | (s, Inr r) \<Rightarrow> (s, Inr (addBands (addBands r g) b)))))"

text \<open>
  Calls of \<open>surface_reflectance\<close> made one after the other on the same object, as
  cell 11 makes them: each call starts from the object the previous one left, and an
  exception ends the sequence.
\<close>

fun correct_bands ::
  "('a SixS_scheme \<Rightarrow> error + Outputs) \<Rightarrow> notebook \<Rightarrow> string list \<Rightarrow> 'a SixS_scheme
     \<Rightarrow> 'a SixS_scheme \<times> (error + image list)" where
  "correct_bands sixs nb [] s = (s, Inr [])"
| "correct_bands sixs nb (bandname # rest) s =
     (case surface_reflectance sixs nb bandname s of
        (s, Inl e) \<Rightarrow> (s, Inl e)
      | (s, Inr ref) \<Rightarrow>
          (case correct_bands sixs nb rest s of
             (s, Inl e) \<Rightarrow> (s, Inl e)
           | (s, Inr refs) \<Rightarrow> (s, Inr (ref # refs))))"

subsection \<open>Auxiliary definitions for the proofs\<close>

text \<open>
  Two \<^verbatim>\<open>SixS\<close> objects have the same parameters when they agree on every field
  but the wavelength and the outputs.
\<close>

definition same_parameters :: "'a SixS_scheme \<Rightarrow> 'a SixS_scheme \<Rightarrow> bool" where
  "same_parameters s s' \<longleftrightarrow>
     atmos_profile s' = atmos_profile s \<and> aero_profile s' = aero_profile s
     \<and> aot550 s' = aot550 s \<and> geometry s' = geometry s \<and> altitudes s' = altitudes s
     \<and> SixS.more s' = SixS.more s"

text \<open>
  A 6S program that refuses every object whose parameters are not those of \<open>s0\<close>.
\<close>

definition with_parameters_of ::
  "'a SixS_scheme \<Rightarrow> ('a SixS_scheme \<Rightarrow> error + Outputs) \<Rightarrow> 'a SixS_scheme \<Rightarrow> error + Outputs" where
  "with_parameters_of s0 sixs s = (if same_parameters s0 s then sixs s else Inl SixSError)"

text \<open>
  The equation of reflected sunlight in the text above cell 10,
  \<open>L = \<tau> \<rho> (Edir + Edif) / \<pi> + Lp\<close>, and the conversion factor of \<open>toa_to_rad\<close>.
\<close>

definition forward_radiance :: "real \<Rightarrow> real \<Rightarrow> real \<Rightarrow> real \<Rightarrow> real \<Rightarrow> real" where
  "forward_radiance tau Edir Edif Lp rho = tau * rho * (Edir + Edif) / pi + Lp"

definition multiplier :: "notebook \<Rightarrow> real \<Rightarrow> real" where
  "multiplier nb ESUN =
     ESUN * cos (radians (nb_solar_z nb))
       / (pi * (1 - 0.01672 * cos (0.9856 * (of_int (tm_yday (nb_scene_date nb)) - 4)))\<^sup>2)"

text \<open>
  The month and day that \<open>ord2ymd\<close> finds for day \<open>n\<close> (counted from 0) of a year,
  and the two month tables with the leap day of the year as a flag.
\<close>

definition month_day :: "bool \<Rightarrow> int \<Rightarrow> int \<times> int" where
  "month_day leapyear n =
     (let month = (n + 50) div 32;
          preceding = DAYS_BEFORE_MONTH ! nat month + (if month > 2 \<and> leapyear then 1 else 0)
      in if preceding > n
         then (month - 1,
               n - (preceding - (DAYS_IN_MONTH ! nat (month - 1)
                                   + (if month - 1 = 2 \<and> leapyear then 1 else 0))) + 1)
         else (month, n - preceding + 1))"

definition dbm :: "bool \<Rightarrow> int \<Rightarrow> int" where
  "dbm leapyear m = DAYS_BEFORE_MONTH ! nat m + (if m > 2 \<and> leapyear then 1 else 0)"

definition dim :: "bool \<Rightarrow> int \<Rightarrow> int" where
  "dim leapyear m = (if m = 2 \<and> leapyear then 29 else DAYS_IN_MONTH ! nat m)"

text \<open>The day ordinal of the UTC date of a timestamp of \<open>t\<close> seconds.\<close>

definition utc_ordinal :: "real \<Rightarrow> int" where
  "utc_ordinal t = py_round (t * 1000000) div 1000000 div 86400 + 719163"

text \<open>The Earth-Sun distance \<open>d\<close> that \<open>toa_to_rad\<close> computes from the day of the year.\<close>

definition earth_sun_distance :: "int \<Rightarrow> real" where
  "earth_sun_distance doy = 1 - 0.01672 * cos (0.9856 * (of_int doy - 4))"

subsection \<open>An example scene\<close>

text \<open>
  A scene acquired on 2017-01-01 at 00:00:00 UTC with a mean solar zenith angle of 30
  degrees, three bands of one pixel each, and a 6S program that returns the same outputs
  for every band.
\<close>

definition example_info :: "string \<rightharpoonup> real" where
  "example_info =
     [''system:time_start'' \<mapsto> 1483228800000,
      ''MEAN_SOLAR_ZENITH_ANGLE'' \<mapsto> 30,
      ''SOLAR_IRRADIANCE_B2'' \<mapsto> 1959,
      ''SOLAR_IRRADIANCE_B3'' \<mapsto> 1823,
      ''SOLAR_IRRADIANCE_B4'' \<mapsto> 1512]"

definition example_S2 :: image where
  "example_S2 = [(''B2'', [2000]), (''B3'', [1500]), (''B4'', [1000])]"

definition example_date :: datetime where
  "example_date =
     \<lparr>dt_year = 2017, dt_month = 1, dt_day = 1, dt_hour = 0, dt_minute = 0,
      dt_second = 0, dt_microsecond = 0\<rparr>"

definition example_nb :: notebook where
  "example_nb =
     \<lparr>nb_info = example_info, nb_scene_date = example_date, nb_solar_z = 30,
      nb_toa = [(''B2'', [0.2]), (''B3'', [0.15]), (''B4'', [0.1])]\<rparr>"

definition example_outputs :: Outputs where
  "example_outputs =
     \<lparr>direct_solar_irradiance = 800, diffuse_solar_irradiance = 100,
      atmospheric_intrinsic_radiance = 5,
      trans = [''global_gas'' \<mapsto> \<lparr>downward = 0.9, upward = 0.9, total = 0.81\<rparr>,
               ''total_scattering'' \<mapsto> \<lparr>downward = 0.95, upward = 0.95, total = 0.9025\<rparr>]\<rparr>"

definition example_sixs :: "SixS \<Rightarrow> error + Outputs" where
  "example_sixs s = Inr example_outputs"

definition example_Geometry_User :: Geometry where
  "example_Geometry_User =
     \<lparr>solar_z = 32, solar_a = 264, view_z = 23, view_a = 190, day = 14, month = 7\<rparr>"

definition example_s :: SixS where
  "example_s =
     \<lparr>atmos_profile = MidlatitudeSummer, aero_profile = Maritime, aot550 = 0.5,
      geometry = example_Geometry_User,
      altitudes = \<lparr>sensor = SensorSeaLevel, target = TargetSeaLevel\<rparr>,
      wavelength = Wavelength (Micrometres 0.5), outputs = None\<rparr>"

text \<open>A 6S program whose outputs have no upward gas transmission.\<close>

definition opaque_sixs :: "SixS \<Rightarrow> error + Outputs" where
  "opaque_sixs s =
     Inr (example_outputs
            \<lparr>trans := (trans example_outputs)
                 (''global_gas'' \<mapsto> \<lparr>downward = 0, upward = 0, total = 0\<rparr>)\<rparr>)"

text \<open>
  The example scene with a pixel whose TOA reflectance is the forward model of the
  surface reflectance 0.25 under the example outputs.
\<close>

definition round_trip_nb :: notebook where
  "round_trip_nb =
     example_nb
       \<lparr>nb_toa :=
          [(''B2'', map (\<lambda>rho. forward_radiance (0.9 * 0.95) 800 100 5 rho
                                / multiplier example_nb 1959) [0.25])]\<rparr>"

text \<open>The example scene with the sun on the horizon.\<close>

definition polar_nb :: notebook where
  "polar_nb = example_nb\<lparr>nb_solar_z := 90\<rparr>"

section \<open>Theorems\<close>

subsection \<open>The calendar arithmetic\<close>

lemma month_day_ok:
  assumes "0 \<le> n" and "n < 365 + (if leapyear then 1 else 0)"
    and "month_day leapyear n = (m, d)"
  shows "1 \<le> m \<and> m \<le> 12 \<and> 1 \<le> d \<and> d \<le> dim leapyear m \<and> dbm leapyear m + d = n + 1"
proof -
  define k where "k = (n + 50) div 32"
  have r: "1 \<le> k \<and> k \<le> 12"
    using assms(1,2) unfolding k_def by (auto split: if_splits)
  have bounds: "32 * k \<le> n + 50" "n + 50 < 32 * k + 32"
    unfolding k_def by arith+
  from r have "k = 1 \<or> k = 2 \<or> k = 3 \<or> k = 4 \<or> k = 5 \<or> k = 6 \<or> k = 7 \<or> k = 8
    \<or> k = 9 \<or> k = 10 \<or> k = 11 \<or> k = 12"
    by arith
  then show ?thesis
    using bounds assms
    unfolding month_day_def k_def [symmetric] Let_def dbm_def dim_def
    by (elim disjE) (auto simp: DAYS_BEFORE_MONTH_def DAYS_IN_MONTH_def split: if_splits)
qed


lemma mod_zero_range:
  fixes x m :: int
  assumes "1 \<le> x" "x \<le> m"
  shows "x mod m = 0 \<longleftrightarrow> x = m"
proof (cases "x = m")
  case True
  then show ?thesis by simp
next
  case False
  with assms have "x mod m = x" by simp
  with assms False show ?thesis by simp
qed

lemma leap_cycle:
  fixes a b c e :: int
  assumes "0 \<le> b" "b \<le> 3" "0 \<le> c" "c \<le> 24" "0 \<le> e" "e \<le> 3"
  shows "is_leap (400 * a + 100 * b + 4 * c + e + 1) \<longleftrightarrow> e = 3 \<and> (c \<noteq> 24 \<or> b = 3)"
proof -
  let ?y = "400 * a + 100 * b + 4 * c + e + 1"
  have "?y = (e + 1) + (100 * a + 25 * b + c) * 4" by simp
  then have "?y mod 4 = (e + 1) mod 4"
    by (simp only: mod_mult_self1)
  moreover have "(e + 1) mod 4 = 0 \<longleftrightarrow> e + 1 = 4"
    using assms by (intro mod_zero_range) simp_all
  ultimately have m4: "?y mod 4 = 0 \<longleftrightarrow> e = 3" by simp
  have "?y = (4 * c + e + 1) + (4 * a + b) * 100" by simp
  then have "?y mod 100 = (4 * c + e + 1) mod 100"
    by (simp only: mod_mult_self1)
  moreover have "(4 * c + e + 1) mod 100 = 0 \<longleftrightarrow> 4 * c + e + 1 = 100"
    using assms by (intro mod_zero_range) simp_all
  moreover have "4 * c + e + 1 = 100 \<longleftrightarrow> e = 3 \<and> c = 24"
  proof
    assume h: "4 * c + e + 1 = 100"
    have "\<not> c \<le> 23" using h assms(5,6) by linarith
    with assms(4) have "c = 24" by linarith
    with h show "e = 3 \<and> c = 24" by simp
  qed simp
  ultimately have m100: "?y mod 100 = 0 \<longleftrightarrow> e = 3 \<and> c = 24" by simp
  have "?y = (100 * b + 4 * c + e + 1) + a * 400" by simp
  then have "?y mod 400 = (100 * b + 4 * c + e + 1) mod 400"
    by (simp only: mod_mult_self1)
  moreover have "(100 * b + 4 * c + e + 1) mod 400 = 0 \<longleftrightarrow> 100 * b + 4 * c + e + 1 = 400"
    using assms by (intro mod_zero_range) simp_all
  moreover have "100 * b + 4 * c + e + 1 = 400 \<longleftrightarrow> e = 3 \<and> c = 24 \<and> b = 3"
  proof
    assume h: "100 * b + 4 * c + e + 1 = 400"
    have "\<not> b \<le> 2" using h assms(4,6) by linarith
    with assms(2) have b: "b = 3" by linarith
    have "\<not> c \<le> 23" using h b assms(5,6) by linarith
    with assms(4) have "c = 24" by linarith
    with h b show "e = 3 \<and> c = 24 \<and> b = 3" by simp
  qed simp
  ultimately have m400: "?y mod 400 = 0 \<longleftrightarrow> e = 3 \<and> c = 24 \<and> b = 3" by simp
  show ?thesis
    unfolding is_leap_def m4 m100 m400 by blast
qed

lemma cycle_split:
  fixes n :: int
  defines "r1 \<equiv> n mod 146097"
  defines "r2 \<equiv> r1 mod 36524"
  defines "r3 \<equiv> r2 mod 1461"
  shows "n = 146097 * (n div 146097) + 36524 * (r1 div 36524) + 1461 * (r2 div 1461)
             + 365 * (r3 div 365) + r3 mod 365"
    and "0 \<le> r1 div 36524" "r1 div 36524 \<le> 4"
    and "0 \<le> r2 div 1461" "r2 div 1461 \<le> 24"
    and "0 \<le> r3 div 365" "r3 div 365 \<le> 4"
    and "0 \<le> r3 mod 365" "r3 mod 365 < 365"
    and "r1 div 36524 = 4 \<Longrightarrow> r2 div 1461 = 0 \<and> r3 div 365 = 0 \<and> r3 mod 365 = 0"
    and "r3 div 365 = 4 \<Longrightarrow> r3 mod 365 = 0"
    and "r2 div 1461 = 24 \<Longrightarrow> r3 div 365 \<le> 3"
proof -
  have e1: "n = 146097 * (n div 146097) + r1" and b1: "0 \<le> r1" "r1 < 146097"
    unfolding r1_def by simp_all
  have e2: "r1 = 36524 * (r1 div 36524) + r2" and b2: "0 \<le> r2" "r2 < 36524"
    unfolding r2_def by simp_all
  have e3: "r2 = 1461 * (r2 div 1461) + r3" and b3: "0 \<le> r3" "r3 < 1461"
    unfolding r3_def by simp_all
  have e4: "r3 = 365 * (r3 div 365) + r3 mod 365" and b4: "0 \<le> r3 mod 365" "r3 mod 365 < 365"
    by simp_all
  show "n = 146097 * (n div 146097) + 36524 * (r1 div 36524) + 1461 * (r2 div 1461)
             + 365 * (r3 div 365) + r3 mod 365"
    using e1 e2 e3 e4 by linarith
  show q1: "0 \<le> r1 div 36524" "r1 div 36524 \<le> 4"
    using e2 b1 b2 by linarith+
  show q2: "0 \<le> r2 div 1461" "r2 div 1461 \<le> 24"
    using e3 b2 b3 by linarith+
  show q3: "0 \<le> r3 div 365" "r3 div 365 \<le> 4"
    using e4 b3 b4 by linarith+
  show "0 \<le> r3 mod 365" "r3 mod 365 < 365"
    using b4 by simp_all
  show "r3 div 365 = 4 \<Longrightarrow> r3 mod 365 = 0"
    using e4 b3 b4 by linarith
  show "r2 div 1461 = 24 \<Longrightarrow> r3 div 365 \<le> 3"
    using e3 e4 b2 b3 b4 by linarith
  show "r1 div 36524 = 4 \<Longrightarrow> r2 div 1461 = 0 \<and> r3 div 365 = 0 \<and> r3 mod 365 = 0"
  proof -
    assume "r1 div 36524 = 4"
    with e2 b1 b2 have "r2 = 0" by linarith
    then show ?thesis by (simp add: r3_def)
  qed
qed

lemma dby_cycle:
  fixes a b c e :: int
  assumes "0 \<le> b" "b \<le> 3" "0 \<le> c" "c \<le> 24" "0 \<le> e" "e \<le> 3"
  shows "days_before_year (400 * a + 100 * b + 4 * c + e + 1)
           = 146097 * a + 36524 * b + 1461 * c + 365 * e"
proof -
  let ?y = "400 * a + 100 * b + 4 * c + e"
  have d4: "?y div 4 = 100 * a + 25 * b + c" using assms by arith
  have d100: "?y div 100 = 4 * a + b" using assms by arith
  have d400: "?y div 400 = a" using assms by arith
  show ?thesis
    unfolding days_before_year_def Let_def
    by (simp add: d4 d100 d400)
qed

lemma dbm_leap: "days_before_month y m = dbm (is_leap y) m"
  by (simp add: days_before_month_def dbm_def)

lemma dim_leap: "days_in_month y m = dim (is_leap y) m"
  by (simp add: days_in_month_def dim_def)

lemma ord2ymd_correct:
  assumes "ord2ymd n = (y, m, d)"
  shows "1 \<le> m \<and> m \<le> 12 \<and> 1 \<le> d \<and> d \<le> days_in_month y m \<and> ymd2ord y m d = n"
proof -
  define r1 where "r1 = (n - 1) mod 146097"
  define r2 where "r2 = r1 mod 36524"
  define r3 where "r3 = r2 mod 1461"
  define a where "a = (n - 1) div 146097"
  define b where "b = r1 div 36524"
  define c where "c = r2 div 1461"
  define e where "e = r3 div 365"
  define r where "r = r3 mod 365"
  note defs = r1_def r2_def r3_def a_def b_def c_def e_def r_def
  note cs = cycle_split [of "n - 1", folded defs]
  have n: "n - 1 = 146097 * a + 36524 * b + 1461 * c + 365 * e + r"
    using cs(1) .
  note raw = assms [unfolded ord2ymd_def Let_def DI400Y_def DI100Y_def DI4Y_def, folded defs]
  have res: "(y, m, d) =
      (if e = 4 \<or> b = 4 then (400 * a + 100 * b + 4 * c + e + 1 - 1, 12, 31)
       else (case month_day (e = 3 \<and> (c \<noteq> 24 \<or> b = 3)) r of
               (m, d) \<Rightarrow> (400 * a + 100 * b + 4 * c + e + 1, m, d)))"
    using raw by (auto simp: month_day_def Let_def split: if_splits)
  show ?thesis
  proof (cases "e = 4 \<or> b = 4")
    case True
    with res have y: "y = 400 * a + 100 * b + 4 * c + e" and m: "m = 12" and d: "d = 31"
      by simp_all
    show ?thesis
    proof (cases "b = 4")
      case True
      with cs have z: "c = 0" "e = 0" "r = 0" by simp_all
      have y': "y = 400 * a + 100 * 3 + 4 * 24 + 3 + 1" using y True z by simp
      have "days_before_year y = 146097 * a + 36524 * 3 + 1461 * 24 + 365 * 3"
        unfolding y' by (rule dby_cycle) simp_all
      moreover have "is_leap y"
        unfolding y' by (subst leap_cycle) simp_all
      ultimately show ?thesis
        using n True z m d
        by (simp add: ymd2ord_def days_before_month_def days_in_month_def
            DAYS_BEFORE_MONTH_def DAYS_IN_MONTH_def)
    next
      case False
      with True have e4: "e = 4" by simp
      with cs have z: "r = 0" by simp
      have c: "c \<le> 23" using cs(5,12) e4 by force
      have b: "0 \<le> b" "b \<le> 3" using cs(2,3) False by simp_all
      have y': "y = 400 * a + 100 * b + 4 * c + 3 + 1" using y e4 by simp
      have "days_before_year y = 146097 * a + 36524 * b + 1461 * c + 365 * 3"
        unfolding y' using b c cs(4) by (intro dby_cycle) simp_all
      moreover have "is_leap y"
        unfolding y' using b c cs(4) by (subst leap_cycle) simp_all
      ultimately show ?thesis
        using n e4 z m d
        by (simp add: ymd2ord_def days_before_month_def days_in_month_def
            DAYS_BEFORE_MONTH_def DAYS_IN_MONTH_def)
    qed
  next
    case False
    then have e: "e \<le> 3" and b: "b \<le> 3" using cs(3,7) by simp_all
    let ?leap = "e = 3 \<and> (c \<noteq> 24 \<or> b = 3)"
    from res False have y: "y = 400 * a + 100 * b + 4 * c + e + 1"
      and md: "month_day ?leap r = (m, d)"
      by (simp_all split: prod.splits)
    have dby: "days_before_year y = 146097 * a + 36524 * b + 1461 * c + 365 * e"
      unfolding y using b e cs by (intro dby_cycle) simp_all
    have leap: "is_leap y \<longleftrightarrow> ?leap"
      unfolding y using b e cs by (intro leap_cycle) simp_all
    have "0 \<le> r" "r < 365 + (if ?leap then 1 else 0)"
      using cs(8,9) by simp_all
    from month_day_ok [OF this md]
    have "1 \<le> m \<and> m \<le> 12 \<and> 1 \<le> d \<and> d \<le> dim ?leap m \<and> dbm ?leap m + d = r + 1" .
    then show ?thesis
      using n dby unfolding ymd2ord_def dbm_leap dim_leap leap by simp
  qed
qed

lemma utcfromtimestamp_ordinal:
  assumes "utcfromtimestamp t = Inr dt"
  shows "ord2ymd (utc_ordinal t) = (dt_year dt, dt_month dt, dt_day dt)"
    and "1 \<le> utc_ordinal t" and "utc_ordinal t \<le> 3652059"
  using assms
  by (auto simp: utcfromtimestamp_def utc_ordinal_def Let_def split: if_splits prod.splits)

lemma utcfromtimestamp_date:
  assumes "utcfromtimestamp t = Inr dt"
  shows "1 \<le> dt_month dt \<and> dt_month dt \<le> 12 \<and> 1 \<le> dt_day dt
         \<and> dt_day dt \<le> days_in_month (dt_year dt) (dt_month dt)
         \<and> ymd2ord (dt_year dt) (dt_month dt) (dt_day dt) = utc_ordinal t"
  using utcfromtimestamp_ordinal(1) [OF assms] by (rule ord2ymd_correct)

lemma py_round_of_int: "py_round (of_int k) = k"
  by (simp add: py_round_def)

text \<open>
  For a timestamp of a whole number of milliseconds, as Earth Engine gives it, the UTC
  day is the number of whole days of 86400000 ms since 1970-01-01.
\<close>

lemma utc_ordinal_millis: "utc_ordinal (of_int ms / 1000) = ms div 86400000 + 719163"
proof -
  have "(of_int ms / 1000 * 1000000 :: real) = of_int (ms * 1000)"
    by simp
  then have "py_round (of_int ms / 1000 * 1000000) = ms * 1000"
    by (simp only: py_round_of_int)
  moreover have "ms * 1000 div 1000000 div 86400 = ms div 86400000"
    by (simp add: div_mult2_eq [symmetric])
  ultimately show ?thesis
    by (simp add: utc_ordinal_def)
qed

lemma div_step:
  fixes y k :: int
  assumes "0 < k"
  shows "y div k = (y - 1) div k + (if y mod k = 0 then 1 else 0)"
proof -
  have e: "y = k * (y div k) + y mod k" by simp
  have b: "0 \<le> y mod k" "y mod k < k" using assms by simp_all
  show ?thesis
  proof (cases "y mod k = 0")
    case True
    then have "y - 1 = (y div k - 1) * k + (k - 1)"
      using e by (simp add: algebra_simps)
    then have "(y - 1) div k = (y div k - 1) + (k - 1) div k"
      using assms by (metis div_mult_self3 less_irrefl)
    with True assms show ?thesis by simp
  next
    case False
    then have "y - 1 = (y div k) * k + (y mod k - 1)"
      using e by (simp add: algebra_simps)
    then have "(y - 1) div k = y div k + (y mod k - 1) div k"
      using assms by (metis div_mult_self3 less_irrefl)
    moreover have "(y mod k - 1) div k = 0"
      using b False by (intro div_pos_pos_trivial) linarith+
    ultimately show ?thesis using False by simp
  qed
qed

lemma days_before_next_year:
  "days_before_year (y + 1) = days_before_year y + 365 + (if is_leap y then 1 else 0)"
proof -
  define p4 where "p4 \<longleftrightarrow> y mod 4 = 0"
  define p100 where "p100 \<longleftrightarrow> y mod 100 = 0"
  define p400 where "p400 \<longleftrightarrow> y mod 400 = 0"
  define q4 where "q4 = (y - 1) div 4"
  define q100 where "q100 = (y - 1) div 100"
  define q400 where "q400 = (y - 1) div 400"
  have d: "y div 4 = q4 + (if p4 then 1 else 0)"
    "y div 100 = q100 + (if p100 then 1 else 0)"
    "y div 400 = q400 + (if p400 then 1 else 0)"
    unfolding p4_def p100_def p400_def q4_def q100_def q400_def
    by (rule div_step, simp)+
  have i: "p400 \<Longrightarrow> p100" "p100 \<Longrightarrow> p4"
    unfolding p4_def p100_def p400_def by presburger+
  have l: "is_leap y \<longleftrightarrow> p4 \<and> (\<not> p100 \<or> p400)"
    unfolding is_leap_def p4_def p100_def p400_def ..
  have A: "days_before_year (y + 1) = y * 365 + y div 4 - y div 100 + y div 400"
    by (simp add: days_before_year_def Let_def)
  have B: "days_before_year y = (y - 1) * 365 + q4 - q100 + q400"
    by (simp add: days_before_year_def Let_def q4_def q100_def q400_def)
  show ?thesis
    unfolding A B d l using i by (cases p4; cases p100; cases p400; simp)
qed

lemma tm_yday_range:
  assumes "1 \<le> dt_month dt" "dt_month dt \<le> 12" "1 \<le> dt_day dt"
    and "dt_day dt \<le> days_in_month (dt_year dt) (dt_month dt)"
  shows "1 \<le> tm_yday dt"
    and "tm_yday dt \<le> 365 + (if is_leap (dt_year dt) then 1 else 0)"
proof -
  from assms(1,2) have "dt_month dt = 1 \<or> dt_month dt = 2 \<or> dt_month dt = 3 \<or> dt_month dt = 4
      \<or> dt_month dt = 5 \<or> dt_month dt = 6 \<or> dt_month dt = 7 \<or> dt_month dt = 8
      \<or> dt_month dt = 9 \<or> dt_month dt = 10 \<or> dt_month dt = 11 \<or> dt_month dt = 12"
    by arith
  then show "1 \<le> tm_yday dt" and "tm_yday dt \<le> 365 + (if is_leap (dt_year dt) then 1 else 0)"
    using assms(3,4)
    by (auto simp: tm_yday_def days_before_month_def days_in_month_def DAYS_BEFORE_MONTH_def
        DAYS_IN_MONTH_def split: if_splits)
qed

subsection \<open>The example scene and the radiance conversion\<close>

lemma example_timestamp:
  "utcfromtimestamp 1483228800 = Inr example_date"
  by (simp add: utcfromtimestamp_def py_round_def ord2ymd_def DI400Y_def DI100Y_def DI4Y_def
      DAYS_BEFORE_MONTH_def DAYS_IN_MONTH_def Let_def example_date_def)

lemma example_load_scene: "load_scene example_S2 example_info = Inr example_nb"
  by (simp add: load_scene_def example_info_def example_timestamp example_nb_def ee_divide_def
      example_S2_def)

lemma distance_bounds_aux:
  fixes c :: real
  assumes "- 1 \<le> c" "c \<le> 1"
  shows "0.98328 \<le> 1 - 0.01672 * c" "1 - 0.01672 * c \<le> 1.01672"
  using assms by simp_all

lemma earth_sun_distance_range:
  "0.98328 \<le> earth_sun_distance doy" "earth_sun_distance doy \<le> 1.01672"
  unfolding earth_sun_distance_def
  by (rule distance_bounds_aux, rule cos_ge_minus_one, rule cos_le_one)+

lemma earth_sun_distance_pos: "0 < earth_sun_distance doy"
  by (rule less_le_trans [OF _ earth_sun_distance_range(1)]) simp

lemma find_SomeD:
  assumes "find P xs = Some x"
  shows "P x"
  using assms by (induction xs) (auto split: if_splits)

lemma toa_to_rad_Inr:
  assumes "nb_info nb (''SOLAR_IRRADIANCE_'' @ bandname) = Some ESUN"
    and "find (\<lambda>b. fst b = bandname) (nb_toa nb) = Some (name, px)"
  shows "toa_to_rad nb bandname =
           Inr [(bandname,
                 map (\<lambda>r. r * (ESUN * cos (radians (nb_solar_z nb))
                               / (pi * (earth_sun_distance (tm_yday (nb_scene_date nb)))\<^sup>2))) px)]"
proof -
  have "name = bandname"
    using find_SomeD [OF assms(2)] by simp
  moreover have "pi * (earth_sun_distance (tm_yday (nb_scene_date nb)))\<^sup>2 \<noteq> 0"
    using earth_sun_distance_pos [of "tm_yday (nb_scene_date nb)"] by simp
  ultimately show ?thesis
    unfolding toa_to_rad_def Let_def earth_sun_distance_def [symmetric]
    using assms by (simp add: ee_select_def ee_multiply_def)
qed

text \<open>
  Claim C8. For every day of the year from 1 to 366 the Earth-Sun distance
  \<open>1 - 0.01672 * cos (0.9856 * (dayOfYear - 4))\<close> that \<open>toa_to_rad\<close> computes lies
  between 0.983 and 1.017.
\<close>

theorem earth_sun_distance_bounds:
  assumes "1 \<le> doy" and "doy \<le> 366"
  shows "0.983 \<le> earth_sun_distance doy \<and> earth_sun_distance doy \<le> 1.017"
  using earth_sun_distance_range [of doy] by simp

theorem earth_sun_distance_bounds_witness:
  "(1::int) \<le> 1 \<and> (1::int) \<le> 366
   \<and> 0.983 \<le> earth_sun_distance 1 \<and> earth_sun_distance 1 \<le> 1.017"
  using earth_sun_distance_bounds [of 1] by simp

lemma load_scene_Inr:
  assumes "load_scene S2 info = Inr nb"
  shows "nb_info nb = info" and "nb_toa nb = ee_divide S2 10000"
    and "\<exists>time_start. info ''system:time_start'' = Some time_start
           \<and> utcfromtimestamp (time_start / 1000) = Inr (nb_scene_date nb)"
    and "info ''MEAN_SOLAR_ZENITH_ANGLE'' = Some (nb_solar_z nb)"
  using assms
  by (auto simp: load_scene_def Let_def split: option.splits sum.splits)

lemma tm_yday_ordinal:
  "days_before_year (dt_year dt) + tm_yday dt = ymd2ord (dt_year dt) (dt_month dt) (dt_day dt)"
  by (simp add: tm_yday_def ymd2ord_def)

text \<open>
  Claim C3. For a scene loaded from its metadata, every pixel reflectance \<open>r\<close> of the
  band becomes \<open>r * ESUN * cos (zenith in radians) / (pi * d\<^sup>2)\<close>, with \<open>ESUN\<close> the
  band's entry \<^verbatim>\<open>SOLAR_IRRADIANCE_<band>\<close> of the metadata,
  \<open>d = 1 - 0.01672 * cos (0.9856 * (dayOfYear - 4))\<close>, and \<open>dayOfYear\<close> the position,
  counted from 1, of the UTC day of the acquisition timestamp within its year.
\<close>

theorem toa_to_rad_formula:
  assumes "load_scene S2 info = Inr nb"
    and "info (''SOLAR_IRRADIANCE_'' @ bandname) = Some ESUN"
    and "info ''MEAN_SOLAR_ZENITH_ANGLE'' = Some zenith"
    and "info ''system:time_start'' = Some time_start"
    and "find (\<lambda>b. fst b = bandname) (nb_toa nb) = Some (name, px)"
    and "dayOfYear = utc_ordinal (time_start / 1000) - days_before_year (dt_year (nb_scene_date nb))"
    and "d = 1 - 0.01672 * cos (0.9856 * (of_int dayOfYear - 4))"
  shows "toa_to_rad nb bandname
           = Inr [(bandname, map (\<lambda>r. r * ESUN * cos (zenith * pi / 180) / (pi * d\<^sup>2)) px)]
         \<and> days_before_year (dt_year (nb_scene_date nb)) < utc_ordinal (time_start / 1000)
         \<and> utc_ordinal (time_start / 1000) \<le> days_before_year (dt_year (nb_scene_date nb) + 1)
         \<and> 1 \<le> dayOfYear \<and> dayOfYear \<le> 366"
proof -
  let ?dt = "nb_scene_date nb"
  note ls = load_scene_Inr [OF assms(1)]
  have z: "nb_solar_z nb = zenith"
    using ls(4) assms(3) by simp
  have "utcfromtimestamp (time_start / 1000) = Inr ?dt"
    using ls(3) assms(4) by auto
  note date = utcfromtimestamp_date [OF this]
  have doy: "tm_yday ?dt = dayOfYear"
    using tm_yday_ordinal [of ?dt] date assms(6) by simp
  have rng: "1 \<le> tm_yday ?dt" "tm_yday ?dt \<le> 365 + (if is_leap (dt_year ?dt) then 1 else 0)"
    using date by (simp_all add: tm_yday_range)
  have d: "earth_sun_distance (tm_yday ?dt) = d"
    unfolding doy assms(7) earth_sun_distance_def ..
  have "toa_to_rad nb bandname
          = Inr [(bandname, map (\<lambda>r. r * (ESUN * cos (radians zenith) / (pi * d\<^sup>2))) px)]"
    using toa_to_rad_Inr [of nb bandname ESUN name px] assms(2,5) ls(1) z d by simp
  then have "toa_to_rad nb bandname
          = Inr [(bandname, map (\<lambda>r. r * ESUN * cos (zenith * pi / 180) / (pi * d\<^sup>2)) px)]"
    by (simp add: radians_def)
  moreover have "days_before_year (dt_year ?dt) < utc_ordinal (time_start / 1000)"
    using rng(1) doy assms(6) by simp
  moreover have "utc_ordinal (time_start / 1000) \<le> days_before_year (dt_year ?dt + 1)"
    using rng(2) doy assms(6) by (simp add: days_before_next_year)
  moreover have "1 \<le> dayOfYear" "dayOfYear \<le> 366"
    using rng doy by (simp_all split: if_splits)
  ultimately show ?thesis by simp
qed

theorem toa_to_rad_formula_witness:
  "load_scene example_S2 example_info = Inr example_nb
   \<and> toa_to_rad example_nb ''B2''
       = Inr [(''B2'', map (\<lambda>r. r * 1959 * cos (30 * pi / 180)
                                / (pi * (1 - 0.01672 * cos (0.9856 * (of_int 1 - 4)))\<^sup>2)) [0.2])]"
proof -
  have h2: "example_info (''SOLAR_IRRADIANCE_'' @ ''B2'') = Some 1959"
    and h3: "example_info ''MEAN_SOLAR_ZENITH_ANGLE'' = Some 30"
    and h4: "example_info ''system:time_start'' = Some 1483228800000"
    by (simp_all add: example_info_def)
  have h5: "find (\<lambda>b. fst b = ''B2'') (nb_toa example_nb) = Some (''B2'', [0.2])"
    by (simp add: example_nb_def)
  have h6: "1 = utc_ordinal (1483228800000 / 1000)
                  - days_before_year (dt_year (nb_scene_date example_nb))"
    by (simp add: utc_ordinal_def py_round_def days_before_year_def example_nb_def
        example_date_def)
  from toa_to_rad_formula [OF example_load_scene h2 h3 h4 h5 h6 refl] example_load_scene
  show ?thesis by blast
qed

text \<open>
  Claim C5 as stated fails: with a solar zenith angle of 90 degrees \<open>toa_to_rad\<close>
  raises nothing and returns a radiance raster of the band.
\<close>

theorem toa_to_rad_zenith_90:
  "nb_solar_z polar_nb = 90
   \<and> \<not> isl (toa_to_rad polar_nb ''B2'')
   \<and> map_sum id bandNames (toa_to_rad polar_nb ''B2'') = Inr [''B2'']"
proof -
  have "nb_info polar_nb (''SOLAR_IRRADIANCE_'' @ ''B2'') = Some 1959"
    by (simp add: polar_nb_def example_nb_def example_info_def)
  moreover have "find (\<lambda>b. fst b = ''B2'') (nb_toa polar_nb) = Some (''B2'', [0.2])"
    by (simp add: polar_nb_def example_nb_def)
  ultimately have "toa_to_rad polar_nb ''B2'' =
      Inr [(''B2'', map (\<lambda>r. r * (1959 * cos (radians (nb_solar_z polar_nb))
              / (pi * (earth_sun_distance (tm_yday (nb_scene_date polar_nb)))\<^sup>2))) [0.2])]"
    by (rule toa_to_rad_Inr)
  moreover have "nb_solar_z polar_nb = 90"
    by (simp add: polar_nb_def)
  ultimately show ?thesis
    by (simp add: bandNames_def)
qed

text \<open>
  Claim C5, amended. For a solar zenith angle of at least 90 degrees \<open>toa_to_rad\<close> does
  not fail on account of the angle: it raises \<^verbatim>\<open>KeyError\<close> when the metadata has no
  \<^verbatim>\<open>SOLAR_IRRADIANCE_<band>\<close> entry, fails in Earth Engine when the image has no
  such band, and otherwise returns the radiance raster
  \<open>r * ESUN * cos (zenith in radians) / (pi * d\<^sup>2)\<close>.
\<close>

theorem toa_to_rad_no_geometry_check:
  assumes "90 \<le> nb_solar_z nb"
  shows "toa_to_rad nb bandname =
           (case nb_info nb (''SOLAR_IRRADIANCE_'' @ bandname) of
              None \<Rightarrow> Inl (KeyError (''SOLAR_IRRADIANCE_'' @ bandname))
            | Some ESUN \<Rightarrow>
                (case find (\<lambda>b. fst b = bandname) (nb_toa nb) of
                   None \<Rightarrow> Inl (EEException bandname)
                 | Some (name, px) \<Rightarrow>
                     Inr [(bandname,
                           map (\<lambda>r. r * ESUN * cos (nb_solar_z nb * pi / 180)
                                      / (pi * (earth_sun_distance (tm_yday (nb_scene_date nb)))\<^sup>2))
                             px)]))"
proof (cases "nb_info nb (''SOLAR_IRRADIANCE_'' @ bandname)")
  case None
  then show ?thesis by (simp add: toa_to_rad_def)
next
  case (Some ESUN)
  show ?thesis
  proof (cases "find (\<lambda>b. fst b = bandname) (nb_toa nb)")
    case None
    have "pi * (earth_sun_distance (tm_yday (nb_scene_date nb)))\<^sup>2 \<noteq> 0"
      using earth_sun_distance_pos [of "tm_yday (nb_scene_date nb)"] by simp
    then show ?thesis
      unfolding toa_to_rad_def Let_def earth_sun_distance_def [symmetric]
      using Some None by (simp add: ee_select_def)
  next
    case found: (Some b)
    obtain name px where b: "b = (name, px)" by (cases b)
    from toa_to_rad_Inr [OF Some found [unfolded b]] Some found b
    show ?thesis by (simp add: radians_def)
  qed
qed

theorem toa_to_rad_no_geometry_check_witness:
  "90 \<le> nb_solar_z polar_nb
   \<and> toa_to_rad polar_nb ''B2''
       = Inr [(''B2'', map (\<lambda>r. r * 1959 * cos (90 * pi / 180)
                  / (pi * (earth_sun_distance (tm_yday (nb_scene_date polar_nb)))\<^sup>2)) [0.2])]"
proof -
  have h: "90 \<le> nb_solar_z polar_nb"
    by (simp add: polar_nb_def)
  have "nb_info polar_nb (''SOLAR_IRRADIANCE_'' @ ''B2'') = Some 1959"
    by (simp add: polar_nb_def example_nb_def example_info_def)
  moreover have "find (\<lambda>b. fst b = ''B2'') (nb_toa polar_nb) = Some (''B2'', [0.2])"
    by (simp add: polar_nb_def example_nb_def)
  moreover have "nb_solar_z polar_nb = 90"
    by (simp add: polar_nb_def)
  ultimately show ?thesis
    using toa_to_rad_no_geometry_check [OF h, of "''B2''"] h by simp
qed

subsection \<open>The reflectance inversion\<close>

lemma multiplier_eq:
  "multiplier nb ESUN =
     ESUN * cos (radians (nb_solar_z nb))
       / (pi * (earth_sun_distance (tm_yday (nb_scene_date nb)))\<^sup>2)"
  by (simp only: multiplier_def earth_sun_distance_def)

lemma toa_to_rad_multiplier:
  assumes "nb_info nb (''SOLAR_IRRADIANCE_'' @ bandname) = Some ESUN"
    and "find (\<lambda>b. fst b = bandname) (nb_toa nb) = Some (name, px)"
  shows "toa_to_rad nb bandname = Inr [(bandname, map (\<lambda>r. r * multiplier nb ESUN) px)]"
  using toa_to_rad_Inr [OF assms] by (simp only: multiplier_eq)

lemma surface_reflectance_Inr:
  assumes "spectralResponseFunction bandname = Inr w"
    and "sixs (s\<lparr>wavelength := w\<rparr>) = Inr out"
    and "trans out ''global_gas'' = Some gas"
    and "trans out ''total_scattering'' = Some scattering"
    and "toa_to_rad nb bandname = Inr rad"
  shows "surface_reflectance sixs nb bandname s =
           (s\<lparr>wavelength := w, outputs := Some out\<rparr>,
            Inr (ee_divide
                   (ee_multiply (ee_subtract rad (atmospheric_intrinsic_radiance out)) pi)
                   (upward gas * upward scattering
                      * (direct_solar_irradiance out + diffuse_solar_irradiance out))))"
  using assms by (simp add: surface_reflectance_def run_def Let_def)

lemma ee_inversion:
  "ee_divide (ee_multiply (ee_subtract rad Lp) pi) c
     = map (\<lambda>(n, px). (n, map (\<lambda>L. pi * (L - Lp) / c) px)) rad"
  by (auto simp: ee_divide_def ee_multiply_def ee_subtract_def)

lemma surface_reflectance_pixels:
  assumes "spectralResponseFunction bandname = Inr w"
    and "sixs (s\<lparr>wavelength := w\<rparr>) = Inr out"
    and "trans out ''global_gas'' = Some gas"
    and "trans out ''total_scattering'' = Some scattering"
    and "toa_to_rad nb bandname = Inr rad"
  shows "snd (surface_reflectance sixs nb bandname s)
           = Inr (map (\<lambda>(n, px).
                         (n, map (\<lambda>L. pi * (L - atmospheric_intrinsic_radiance out)
                                       / (upward gas * upward scattering
                                            * (direct_solar_irradiance out
                                                 + diffuse_solar_irradiance out))) px))
                    rad)"
  unfolding surface_reflectance_Inr [where sixs = sixs and s = s, OF assms] ee_inversion
  by simp

text \<open>
  Claim C2. \<open>surface_reflectance\<close> takes \<open>\<tau>\<close> as the product of the upward
  transmissivities \<^verbatim>\<open>global_gas\<close> and \<^verbatim>\<open>total_scattering\<close> of the 6S outputs,
  the radiance \<open>L\<close> from \<open>toa_to_rad\<close>, and returns \<open>\<pi> (L - Lp) / (\<tau> (Edir + Edif))\<close>
  for every pixel. (Where the divisor is 0, Earth Engine's division and the division of
  HOL both give 0.)
\<close>

theorem surface_reflectance_formula:
  assumes "spectralResponseFunction bandname = Inr w"
    and "sixs (s\<lparr>wavelength := w\<rparr>) = Inr out"
    and "trans out ''global_gas'' = Some gas"
    and "trans out ''total_scattering'' = Some scattering"
    and "toa_to_rad nb bandname = Inr rad"
    and "tau = upward gas * upward scattering"
    and "Edir = direct_solar_irradiance out"
    and "Edif = diffuse_solar_irradiance out"
    and "Lp = atmospheric_intrinsic_radiance out"
  shows "snd (surface_reflectance sixs nb bandname s)
           = Inr (map (\<lambda>(n, px). (n, map (\<lambda>L. pi * (L - Lp) / (tau * (Edir + Edif))) px)) rad)"
  unfolding assms(6-9) using assms(1-5) by (rule surface_reflectance_pixels)

lemma example_toa_to_rad:
  "toa_to_rad example_nb ''B2'' = Inr [(''B2'', [0.2 * multiplier example_nb 1959])]"
proof -
  have "nb_info example_nb (''SOLAR_IRRADIANCE_'' @ ''B2'') = Some 1959"
    by (simp add: example_nb_def example_info_def)
  moreover have "find (\<lambda>b. fst b = ''B2'') (nb_toa example_nb) = Some (''B2'', [0.2])"
    by (simp add: example_nb_def)
  ultimately show ?thesis
    using toa_to_rad_multiplier [of example_nb "''B2''" 1959 "''B2''" "[0.2]"] by simp
qed

lemma example_wavelength:
  "spectralResponseFunction ''B2'' = Inr (Wavelength (Predefined S2A_MSI_02))"
  "spectralResponseFunction ''B3'' = Inr (Wavelength (Predefined S2A_MSI_03))"
  "spectralResponseFunction ''B4'' = Inr (Wavelength (Predefined S2A_MSI_04))"
  by (simp_all add: spectralResponseFunction_def bandSelect_def)

lemma example_trans:
  "trans example_outputs ''global_gas'' = Some \<lparr>downward = 0.9, upward = 0.9, total = 0.81\<rparr>"
  "trans example_outputs ''total_scattering''
     = Some \<lparr>downward = 0.95, upward = 0.95, total = 0.9025\<rparr>"
  by (simp_all add: example_outputs_def)

theorem surface_reflectance_formula_witness:
  "snd (surface_reflectance example_sixs example_nb ''B2'' example_s)
     = Inr [(''B2'', [pi * (0.2 * multiplier example_nb 1959 - 5) / (0.9 * 0.95 * (800 + 100))])]"
proof -
  have "example_sixs (example_s\<lparr>wavelength := Wavelength (Predefined S2A_MSI_02)\<rparr>)
          = Inr example_outputs"
    by (simp add: example_sixs_def)
  from surface_reflectance_formula [where sixs = example_sixs and s = example_s,
      OF example_wavelength(1) this example_trans example_toa_to_rad refl refl refl refl]
  show ?thesis
    by (simp add: example_outputs_def)
qed

text \<open>
  Claim C4 as stated fails: with an upward gas transmissivity of 0 the inversion raises
  nothing and returns the band with the pixel value 0.
\<close>

theorem surface_reflectance_opaque:
  "snd (surface_reflectance opaque_sixs example_nb ''B2'' example_s) = Inr [(''B2'', [0])]"
proof -
  let ?out = "example_outputs
            \<lparr>trans := (trans example_outputs)
                 (''global_gas'' \<mapsto> \<lparr>downward = 0, upward = 0, total = 0\<rparr>)\<rparr>"
  have "opaque_sixs (example_s\<lparr>wavelength := Wavelength (Predefined S2A_MSI_02)\<rparr>) = Inr ?out"
    by (simp add: opaque_sixs_def)
  moreover have "trans ?out ''global_gas'' = Some \<lparr>downward = 0, upward = 0, total = 0\<rparr>"
    by simp
  moreover have "trans ?out ''total_scattering''
      = Some \<lparr>downward = 0.95, upward = 0.95, total = 0.9025\<rparr>"
    by (simp add: example_outputs_def)
  ultimately show ?thesis
    using surface_reflectance_Inr [where sixs = opaque_sixs and s = example_s
        and bandname = "''B2''" and nb = example_nb, OF example_wavelength(1) _ _ _
        example_toa_to_rad]
    by (simp add: ee_divide_def ee_multiply_def ee_subtract_def)
qed

text \<open>
  Claim C4, amended. When \<open>\<tau> (Edir + Edif)\<close> is zero the inversion raises no error on
  that account: where the 6S run, the metadata lookup and the band selection succeed it
  returns the band with every pixel 0, whatever the radiance and the path radiance are.
\<close>

theorem surface_reflectance_zero_denominator:
  assumes "spectralResponseFunction bandname = Inr w"
    and "sixs (s\<lparr>wavelength := w\<rparr>) = Inr out"
    and "trans out ''global_gas'' = Some gas"
    and "trans out ''total_scattering'' = Some scattering"
    and "toa_to_rad nb bandname = Inr rad"
    and "upward gas * upward scattering
           * (direct_solar_irradiance out + diffuse_solar_irradiance out) = 0"
  shows "snd (surface_reflectance sixs nb bandname s)
           = Inr (map (\<lambda>(n, px). (n, map (\<lambda>L. 0) px)) rad)"
  unfolding surface_reflectance_Inr [where sixs = sixs and s = s, OF assms(1-5)] assms(6)
  by (simp add: ee_divide_def ee_multiply_def ee_subtract_def split_def)

theorem surface_reflectance_zero_denominator_witness:
  "snd (surface_reflectance opaque_sixs example_nb ''B2'' example_s)
     = Inr (map (\<lambda>(n, px). (n, map (\<lambda>L. 0) px)) [(''B2'', [0.2 * multiplier example_nb 1959])])"
proof -
  let ?out = "example_outputs
            \<lparr>trans := (trans example_outputs)
                 (''global_gas'' \<mapsto> \<lparr>downward = 0, upward = 0, total = 0\<rparr>)\<rparr>"
  have a: "opaque_sixs (example_s\<lparr>wavelength := Wavelength (Predefined S2A_MSI_02)\<rparr>) = Inr ?out"
    by (simp add: opaque_sixs_def)
  have b: "trans ?out ''global_gas'' = Some \<lparr>downward = 0, upward = 0, total = 0\<rparr>"
    by simp
  have c: "trans ?out ''total_scattering''
      = Some \<lparr>downward = 0.95, upward = 0.95, total = 0.9025\<rparr>"
    by (simp add: example_outputs_def)
  have d: "upward \<lparr>downward = 0, upward = 0, total = 0\<rparr>
             * upward \<lparr>downward = 0.95, upward = 0.95, total = 0.9025\<rparr>
             * (direct_solar_irradiance ?out + diffuse_solar_irradiance ?out) = (0::real)"
    by simp
  show ?thesis
    by (rule surface_reflectance_zero_denominator [where sixs = opaque_sixs and s = example_s,
          OF example_wavelength(1) a b c example_toa_to_rad d])
qed

lemma multiplier_nonzero:
  assumes "0 \<le> nb_solar_z nb" and "nb_solar_z nb < 90" and "ESUN \<noteq> 0"
  shows "multiplier nb ESUN \<noteq> 0"
proof -
  have "0 \<le> radians (nb_solar_z nb)"
    using assms(1) by (simp add: radians_def)
  then have "- (pi / 2) < radians (nb_solar_z nb)"
    using pi_gt_zero by linarith
  moreover have "radians (nb_solar_z nb) < pi / 2"
    using mult_strict_right_mono [OF assms(2) pi_gt_zero] by (simp add: radians_def)
  ultimately have "0 < cos (radians (nb_solar_z nb))"
    by (rule cos_gt_zero_pi)
  moreover have "0 < earth_sun_distance (tm_yday (nb_scene_date nb))"
    by (rule earth_sun_distance_pos)
  ultimately show ?thesis
    using assms(3) by (simp add: multiplier_eq)
qed

text \<open>
  Claim C1. Over the reals: when the TOA reflectance of every pixel is the radiance of
  the forward model \<open>L = \<tau> \<rho> (Edir + Edif) / \<pi> + Lp\<close> divided by the multiplier of
  \<open>toa_to_rad\<close>, the solar zenith angle is in [0, 90), the band's solar irradiance is
  not zero and \<open>\<tau> (Edir + Edif)\<close> is not zero, \<open>surface_reflectance\<close> returns the
  surface reflectances \<open>\<rho>\<close>.
\<close>

theorem surface_reflectance_round_trip:
  assumes "0 \<le> nb_solar_z nb" and "nb_solar_z nb < 90"
    and "nb_info nb (''SOLAR_IRRADIANCE_'' @ bandname) = Some ESUN" and "ESUN \<noteq> 0"
    and "spectralResponseFunction bandname = Inr w"
    and "sixs (s\<lparr>wavelength := w\<rparr>) = Inr out"
    and "trans out ''global_gas'' = Some gas"
    and "trans out ''total_scattering'' = Some scattering"
    and "tau = upward gas * upward scattering"
    and "Edir = direct_solar_irradiance out"
    and "Edif = diffuse_solar_irradiance out"
    and "Lp = atmospheric_intrinsic_radiance out"
    and "tau * (Edir + Edif) \<noteq> 0"
    and "find (\<lambda>b. fst b = bandname) (nb_toa nb)
           = Some (name, map (\<lambda>rho. forward_radiance tau Edir Edif Lp rho / multiplier nb ESUN)
                          rho_true)"
  shows "snd (surface_reflectance sixs nb bandname s) = Inr [(bandname, rho_true)]"
proof -
  have m: "multiplier nb ESUN \<noteq> 0"
    using assms(1,2,4) by (rule multiplier_nonzero)
  have rad: "toa_to_rad nb bandname
      = Inr [(bandname, map (\<lambda>rho. forward_radiance tau Edir Edif Lp rho) rho_true)]"
    using toa_to_rad_multiplier [OF assms(3,14)] m by (simp add: o_def)
  have inv: "pi * (forward_radiance tau Edir Edif Lp rho - Lp) / (tau * (Edir + Edif)) = rho"
    for rho
    using assms(13) by (simp add: forward_radiance_def)
  show ?thesis
    using surface_reflectance_pixels [where sixs = sixs and s = s, OF assms(5-8) rad]
    unfolding assms(9-12) [symmetric]
    by (simp add: o_def inv)
qed

theorem surface_reflectance_round_trip_witness:
  "0 \<le> nb_solar_z round_trip_nb \<and> nb_solar_z round_trip_nb < 90
   \<and> snd (surface_reflectance example_sixs round_trip_nb ''B2'' example_s)
       = Inr [(''B2'', [0.25])]"
proof -
  let ?gas = "\<lparr>downward = 0.9, upward = 0.9, total = 0.81 :: real\<rparr>"
  let ?scattering = "\<lparr>downward = 0.95, upward = 0.95, total = 0.9025 :: real\<rparr>"
  have z: "0 \<le> nb_solar_z round_trip_nb" "nb_solar_z round_trip_nb < 90"
    by (simp_all add: round_trip_nb_def example_nb_def)
  have i: "nb_info round_trip_nb (''SOLAR_IRRADIANCE_'' @ ''B2'') = Some 1959"
    by (simp add: round_trip_nb_def example_nb_def example_info_def)
  have e: "(1959::real) \<noteq> 0"
    by simp
  have r: "example_sixs (example_s\<lparr>wavelength := Wavelength (Predefined S2A_MSI_02)\<rparr>)
          = Inr example_outputs"
    by (simp add: example_sixs_def)
  have n: "upward ?gas * upward ?scattering
            * (direct_solar_irradiance example_outputs + diffuse_solar_irradiance example_outputs)
            \<noteq> 0"
    by (simp add: example_outputs_def)
  have m: "multiplier round_trip_nb 1959 = multiplier example_nb 1959"
    by (simp add: multiplier_def round_trip_nb_def)
  have f: "find (\<lambda>b. fst b = ''B2'') (nb_toa round_trip_nb)
      = Some (''B2'', map (\<lambda>rho. forward_radiance (upward ?gas * upward ?scattering)
                  (direct_solar_irradiance example_outputs)
                  (diffuse_solar_irradiance example_outputs)
                  (atmospheric_intrinsic_radiance example_outputs) rho
                    / multiplier round_trip_nb 1959) [0.25])"
    unfolding m by (simp add: round_trip_nb_def example_outputs_def)
  from surface_reflectance_round_trip [where sixs = example_sixs and s = example_s,
      OF z i e example_wavelength(1) r example_trans refl refl refl refl n f] z
  show ?thesis by simp
qed

subsection \<open>The shared 6S object\<close>

lemma same_parameters_refl: "same_parameters s s"
  by (simp add: same_parameters_def)

lemma same_parameters_trans:
  "same_parameters s s' \<Longrightarrow> same_parameters s' s'' \<Longrightarrow> same_parameters s s''"
  by (simp add: same_parameters_def)

text \<open>
  Having the same parameters is being equal up to the wavelength and the outputs.
\<close>

lemma same_parameters_eq:
  "same_parameters s s' \<longleftrightarrow> s' = s\<lparr>wavelength := wavelength s', outputs := outputs s'\<rparr>"
  by (cases s; cases s') (auto simp: same_parameters_def)

lemma run_frame: "same_parameters s (fst (run sixs s))"
  by (simp add: run_def same_parameters_def split: sum.splits)

lemma surface_reflectance_frame: "same_parameters s (fst (surface_reflectance sixs nb bandname s))"
proof (cases "spectralResponseFunction bandname")
  case (Inl e)
  then show ?thesis by (simp add: surface_reflectance_def same_parameters_refl)
next
  case (Inr w)
  obtain s' res where r: "run sixs (s\<lparr>wavelength := w\<rparr>) = (s', res)"
    by (cases "run sixs (s\<lparr>wavelength := w\<rparr>)")
  have "same_parameters (s\<lparr>wavelength := w\<rparr>) s'"
    using run_frame [of "s\<lparr>wavelength := w\<rparr>" sixs] r by simp
  then have s': "same_parameters s s'"
    by (simp add: same_parameters_def)
  have "fst (surface_reflectance sixs nb bandname s) = s'"
    using Inr r
    by (simp add: surface_reflectance_def Let_def split: sum.splits option.splits)
  with s' show ?thesis by simp
qed

lemma correct_bands_frame: "same_parameters s (fst (correct_bands sixs nb bandnames s))"
proof (induction bandnames arbitrary: s)
  case Nil
  show ?case by (simp add: same_parameters_refl)
next
  case (Cons bandname rest)
  obtain s1 r1 where a: "surface_reflectance sixs nb bandname s = (s1, r1)"
    by (cases "surface_reflectance sixs nb bandname s")
  have s1: "same_parameters s s1"
    using surface_reflectance_frame [of s sixs nb bandname] a by simp
  show ?case
  proof (cases r1)
    case (Inl e)
    with a s1 show ?thesis by simp
  next
    case (Inr ref)
    have "fst (correct_bands sixs nb (bandname # rest) s) = fst (correct_bands sixs nb rest s1)"
      using a Inr by (simp split: prod.splits sum.splits)
    with same_parameters_trans [OF s1 Cons.IH [of s1]] show ?thesis by simp
  qed
qed

lemma atmospheric_correction_bands:
  "atmospheric_correction sixs nb s =
     (case correct_bands sixs nb [''B2'', ''B3'', ''B4''] s of
        (s', Inl e) \<Rightarrow> (s', Inl e)
      | (s', Inr refs) \<Rightarrow> (s', Inr (addBands (addBands (refs ! 2) (refs ! 1)) (refs ! 0))))"
  by (simp add: atmospheric_correction_def split: prod.splits sum.splits)

lemma atmospheric_correction_frame: "same_parameters s (fst (atmospheric_correction sixs nb s))"
proof -
  have "fst (atmospheric_correction sixs nb s) = fst (correct_bands sixs nb [''B2'', ''B3'', ''B4''] s)"
    unfolding atmospheric_correction_bands by (simp split: prod.splits sum.splits)
  then show ?thesis by (simp only: correct_bands_frame)
qed

lemma surface_reflectance_guard:
  assumes "same_parameters s0 s"
  shows "surface_reflectance (with_parameters_of s0 sixs) nb bandname s
           = surface_reflectance sixs nb bandname s"
proof (cases "spectralResponseFunction bandname")
  case (Inl e)
  then show ?thesis by (simp add: surface_reflectance_def)
next
  case (Inr w)
  have "same_parameters s0 (s\<lparr>wavelength := w\<rparr>)"
    using assms by (simp add: same_parameters_def)
  then have "run (with_parameters_of s0 sixs) (s\<lparr>wavelength := w\<rparr>) = run sixs (s\<lparr>wavelength := w\<rparr>)"
    by (simp add: run_def with_parameters_of_def)
  then show ?thesis
    using Inr by (simp add: surface_reflectance_def)
qed

lemma correct_bands_guard:
  assumes "same_parameters s0 s"
  shows "correct_bands (with_parameters_of s0 sixs) nb bandnames s
           = correct_bands sixs nb bandnames s"
  using assms
proof (induction bandnames arbitrary: s)
  case Nil
  show ?case by simp
next
  case (Cons bandname rest)
  obtain s1 r1 where a: "surface_reflectance sixs nb bandname s = (s1, r1)"
    by (cases "surface_reflectance sixs nb bandname s")
  have "same_parameters s s1"
    using surface_reflectance_frame [of s sixs nb bandname] a by simp
  with Cons.prems have "same_parameters s0 s1"
    by (rule same_parameters_trans)
  then have "correct_bands (with_parameters_of s0 sixs) nb rest s1 = correct_bands sixs nb rest s1"
    by (rule Cons.IH)
  then show ?case
    using a surface_reflectance_guard [OF Cons.prems, of sixs nb bandname] by simp
qed

text \<open>
  Claim C9. A call of \<open>surface_reflectance\<close>, any sequence of such calls and the whole
  of cell 11 leave every field of the shared \<^verbatim>\<open>SixS\<close> object but the wavelength
  (and the outputs that the run stores) as it was, and the 6S program is only ever run on
  an object with the parameters of the first call.
\<close>

theorem sixs_parameters_preserved:
  "same_parameters s (fst (surface_reflectance sixs nb bandname s))
   \<and> same_parameters s (fst (correct_bands sixs nb bandnames s))
   \<and> same_parameters s (fst (atmospheric_correction sixs nb s))
   \<and> correct_bands (with_parameters_of s sixs) nb bandnames s = correct_bands sixs nb bandnames s
   \<and> atmospheric_correction (with_parameters_of s sixs) nb s = atmospheric_correction sixs nb s"
proof (intro conjI)
  show "same_parameters s (fst (surface_reflectance sixs nb bandname s))"
    by (rule surface_reflectance_frame)
  show "same_parameters s (fst (correct_bands sixs nb bandnames s))"
    by (rule correct_bands_frame)
  show "same_parameters s (fst (atmospheric_correction sixs nb s))"
    by (rule atmospheric_correction_frame)
  have g: "correct_bands (with_parameters_of s sixs) nb names s = correct_bands sixs nb names s"
    for names
    by (rule correct_bands_guard [OF same_parameters_refl])
  show "correct_bands (with_parameters_of s sixs) nb bandnames s
          = correct_bands sixs nb bandnames s"
    by (rule g)
  show "atmospheric_correction (with_parameters_of s sixs) nb s
          = atmospheric_correction sixs nb s"
    unfolding atmospheric_correction_bands g ..
qed

lemma example_toa_to_rad_B3:
  "toa_to_rad example_nb ''B3'' = Inr [(''B3'', [0.15 * multiplier example_nb 1823])]"
proof -
  have "nb_info example_nb (''SOLAR_IRRADIANCE_'' @ ''B3'') = Some 1823"
    by (simp add: example_nb_def example_info_def)
  moreover have "find (\<lambda>b. fst b = ''B3'') (nb_toa example_nb) = Some (''B3'', [0.15])"
    by (simp add: example_nb_def)
  ultimately show ?thesis
    using toa_to_rad_multiplier [of example_nb "''B3''" 1823 "''B3''" "[0.15]"] by simp
qed

lemma example_toa_to_rad_B4:
  "toa_to_rad example_nb ''B4'' = Inr [(''B4'', [0.1 * multiplier example_nb 1512])]"
proof -
  have "nb_info example_nb (''SOLAR_IRRADIANCE_'' @ ''B4'') = Some 1512"
    by (simp add: example_nb_def example_info_def)
  moreover have "find (\<lambda>b. fst b = ''B4'') (nb_toa example_nb) = Some (''B4'', [0.1])"
    by (simp add: example_nb_def)
  ultimately show ?thesis
    using toa_to_rad_multiplier [of example_nb "''B4''" 1512 "''B4''" "[0.1]"] by simp
qed

lemma example_surface_reflectance:
  fixes s :: SixS
  assumes "spectralResponseFunction bandname = Inr w"
    and "toa_to_rad example_nb bandname = Inr [(bandname, [L])]"
  shows "surface_reflectance example_sixs example_nb bandname s
           = (s\<lparr>wavelength := w, outputs := Some example_outputs\<rparr>,
              Inr [(bandname, [pi * (L - 5) / (0.9 * 0.95 * (800 + 100))])])"
proof -
  have "example_sixs (s\<lparr>wavelength := w\<rparr>) = Inr example_outputs"
    by (simp add: example_sixs_def)
  from surface_reflectance_Inr [where sixs = example_sixs and s = s,
      OF assms(1) this example_trans assms(2)]
  show ?thesis
    by (simp add: ee_inversion example_outputs_def)
qed

lemma example_atmospheric_correction:
  "atmospheric_correction example_sixs example_nb example_s =
     (example_s\<lparr>wavelength := Wavelength (Predefined S2A_MSI_04),
                outputs := Some example_outputs\<rparr>,
      Inr [(''B4'', [pi * (0.1 * multiplier example_nb 1512 - 5) / (0.9 * 0.95 * (800 + 100))]),
           (''B3'', [pi * (0.15 * multiplier example_nb 1823 - 5) / (0.9 * 0.95 * (800 + 100))]),
           (''B2'', [pi * (0.2 * multiplier example_nb 1959 - 5) / (0.9 * 0.95 * (800 + 100))])])"
  unfolding atmospheric_correction_def
  by (simp add: example_surface_reflectance [OF example_wavelength(1) example_toa_to_rad]
      example_surface_reflectance [OF example_wavelength(2) example_toa_to_rad_B3]
      example_surface_reflectance [OF example_wavelength(3) example_toa_to_rad_B4]
      fresh_name_def)

theorem sixs_parameters_preserved_witness:
  "same_parameters example_s (fst (atmospheric_correction example_sixs example_nb example_s))
   \<and> fst (atmospheric_correction example_sixs example_nb example_s)
       = example_s\<lparr>wavelength := Wavelength (Predefined S2A_MSI_04),
                    outputs := Some example_outputs\<rparr>"
  using sixs_parameters_preserved [of example_s example_sixs example_nb "''B2''" "[]"]
  by (simp add: example_atmospheric_correction)

subsection \<open>Band order and geometry\<close>

lemma toa_to_rad_single_band:
  assumes "toa_to_rad nb bandname = Inr rad"
  shows "\<exists>px. rad = [(bandname, px)]"
proof -
  obtain ESUN where e: "nb_info nb (''SOLAR_IRRADIANCE_'' @ bandname) = Some ESUN"
    using assms by (cases "nb_info nb (''SOLAR_IRRADIANCE_'' @ bandname)")
      (simp_all add: toa_to_rad_def)
  obtain b where f: "find (\<lambda>b. fst b = bandname) (nb_toa nb) = Some b"
    using assms e
    by (cases "find (\<lambda>b. fst b = bandname) (nb_toa nb)")
      (simp_all add: toa_to_rad_def Let_def ee_select_def split: if_splits)
  obtain name px where b: "b = (name, px)" by (cases b)
  from toa_to_rad_multiplier [OF e f [unfolded b]] assms show ?thesis by simp
qed

lemma surface_reflectance_InrD:
  assumes "surface_reflectance sixs nb bandname s = (s', Inr ref)"
  shows "\<exists>w out gas scattering rad.
           spectralResponseFunction bandname = Inr w \<and> sixs (s\<lparr>wavelength := w\<rparr>) = Inr out
           \<and> trans out ''global_gas'' = Some gas
           \<and> trans out ''total_scattering'' = Some scattering
           \<and> toa_to_rad nb bandname = Inr rad"
  using assms
  by (auto simp: surface_reflectance_def run_def Let_def split: sum.splits option.splits)

lemma surface_reflectance_single_band:
  assumes "surface_reflectance sixs nb bandname s = (s', Inr ref)"
  shows "\<exists>px. ref = [(bandname, px)]"
proof -
  from surface_reflectance_InrD [OF assms]
  obtain w out gas scattering rad where h: "spectralResponseFunction bandname = Inr w"
    "sixs (s\<lparr>wavelength := w\<rparr>) = Inr out" "trans out ''global_gas'' = Some gas"
    "trans out ''total_scattering'' = Some scattering" "toa_to_rad nb bandname = Inr rad"
    by blast
  from toa_to_rad_single_band [OF h(5)] obtain px where "rad = [(bandname, px)]" ..
  with surface_reflectance_Inr [where sixs = sixs and s = s, OF h] assms
  show ?thesis by (simp add: ee_inversion)
qed

lemma fresh_name_unused:
  assumes "name \<notin> set used"
  shows "fresh_name used name = name"
  using assms by (simp add: fresh_name_def)

text \<open>
  Claim C6 as stated fails: cell 11 invokes the corrections in the order B2, B3, B4 and
  the composite has the bands B4, B3, B2.
\<close>

theorem atmospheric_correction_example_bands:
  "map_sum id (map bandNames)
     (snd (correct_bands example_sixs example_nb [''B2'', ''B3'', ''B4''] example_s))
     = Inr [[''B2''], [''B3''], [''B4'']]
   \<and> map_sum id bandNames (snd (atmospheric_correction example_sixs example_nb example_s))
     = Inr [''B4'', ''B3'', ''B2'']
   \<and> map_sum id bandNames (snd (atmospheric_correction example_sixs example_nb example_s))
     \<noteq> map_sum id (concat \<circ> map bandNames)
         (snd (correct_bands example_sixs example_nb [''B2'', ''B3'', ''B4''] example_s))"
  by (simp add: example_atmospheric_correction bandNames_def
      example_surface_reflectance [OF example_wavelength(1) example_toa_to_rad]
      example_surface_reflectance [OF example_wavelength(2) example_toa_to_rad_B3]
      example_surface_reflectance [OF example_wavelength(3) example_toa_to_rad_B4])

text \<open>
  Claim C6, amended. The composite keeps the order in which the corrected bands are
  passed to \<^verbatim>\<open>addBands\<close>: cell 11 invokes the corrections in the order B2, B3, B4
  and composes the results \<open>b\<close>, \<open>g\<close>, \<open>r\<close> as \<^verbatim>\<open>r.addBands(g).addBands(b)\<close>, so
  the band sequence of the composite is B4, B3, B2, the reverse of the order of invocation.
\<close>

theorem atmospheric_correction_band_order:
  assumes "snd (atmospheric_correction sixs nb s) = Inr ref"
  shows "bandNames ref = [''B4'', ''B3'', ''B2'']
         \<and> (\<exists>b g r. snd (correct_bands sixs nb [''B2'', ''B3'', ''B4''] s) = Inr [b, g, r]
                    \<and> bandNames b = [''B2''] \<and> bandNames g = [''B3''] \<and> bandNames r = [''B4'']
                    \<and> ref = r @ g @ b)"
proof -
  obtain s1 r1 where c1: "surface_reflectance sixs nb ''B2'' s = (s1, r1)"
    by (cases "surface_reflectance sixs nb ''B2'' s")
  obtain s2 r2 where c2: "surface_reflectance sixs nb ''B3'' s1 = (s2, r2)"
    by (cases "surface_reflectance sixs nb ''B3'' s1")
  obtain s3 r3 where c3: "surface_reflectance sixs nb ''B4'' s2 = (s3, r3)"
    by (cases "surface_reflectance sixs nb ''B4'' s2")
  from assms c1 obtain b where b: "r1 = Inr b"
    by (cases r1) (simp_all add: atmospheric_correction_def)
  from assms c1 c2 b obtain g where g: "r2 = Inr g"
    by (cases r2) (simp_all add: atmospheric_correction_def)
  from assms c1 c2 c3 b g obtain r where r: "r3 = Inr r"
    by (cases r3) (simp_all add: atmospheric_correction_def)
  from surface_reflectance_single_band [OF c1 [unfolded b]]
  obtain pb where pb: "b = [(''B2'', pb)]" ..
  from surface_reflectance_single_band [OF c2 [unfolded g]]
  obtain pg where pg: "g = [(''B3'', pg)]" ..
  from surface_reflectance_single_band [OF c3 [unfolded r]]
  obtain pr where pr: "r = [(''B4'', pr)]" ..
  have ref: "ref = addBands (addBands r g) b"
    using assms c1 c2 c3 b g r by (simp add: atmospheric_correction_def)
  have "ref = r @ g @ b"
    unfolding ref pb pg pr by (simp add: fresh_name_unused)
  moreover have "snd (correct_bands sixs nb [''B2'', ''B3'', ''B4''] s) = Inr [b, g, r]"
    using c1 c2 c3 b g r by simp
  ultimately show ?thesis
    using pb pg pr by (auto simp: bandNames_def)
qed

theorem atmospheric_correction_band_order_witness:
  "bandNames
     [(''B4'', [pi * (0.1 * multiplier example_nb 1512 - 5) / (0.9 * 0.95 * (800 + 100))]),
      (''B3'', [pi * (0.15 * multiplier example_nb 1823 - 5) / (0.9 * 0.95 * (800 + 100))]),
      (''B2'', [pi * (0.2 * multiplier example_nb 1959 - 5) / (0.9 * 0.95 * (800 + 100))])]
     = [''B4'', ''B3'', ''B2'']"
proof -
  let ?ref = "[(''B4'', [pi * (0.1 * multiplier example_nb 1512 - 5) / (0.9 * 0.95 * (800 + 100))]),
      (''B3'', [pi * (0.15 * multiplier example_nb 1823 - 5) / (0.9 * 0.95 * (800 + 100))]),
      (''B2'', [pi * (0.2 * multiplier example_nb 1959 - 5) / (0.9 * 0.95 * (800 + 100))])]"
  have "snd (atmospheric_correction example_sixs example_nb example_s) = Inr ?ref"
    by (simp add: example_atmospheric_correction)
  from atmospheric_correction_band_order [OF this] show ?thesis by blast
qed

text \<open>
  Claim C7. Cell 7 always sets the view zenith angle of the geometry to 0, and the month
  and day it writes are those of the scene date; for a scene loaded from its metadata
  they are the month and day of the calendar date (proleptic Gregorian, UTC) whose day
  ordinal is that of the acquisition timestamp.
\<close>

theorem configure_geometry:
  "view_z (geometry (configure s Geometry_User h2o o3 aot km nb)) = 0
   \<and> month (geometry (configure s Geometry_User h2o o3 aot km nb)) = dt_month (nb_scene_date nb)
   \<and> day (geometry (configure s Geometry_User h2o o3 aot km nb)) = dt_day (nb_scene_date nb)
   \<and> (load_scene S2 info = Inr nb \<longrightarrow> info ''system:time_start'' = Some time_start \<longrightarrow>
        utcfromtimestamp (time_start / 1000) = Inr (nb_scene_date nb)
        \<and> 1 \<le> month (geometry (configure s Geometry_User h2o o3 aot km nb))
        \<and> month (geometry (configure s Geometry_User h2o o3 aot km nb)) \<le> 12
        \<and> 1 \<le> day (geometry (configure s Geometry_User h2o o3 aot km nb))
        \<and> day (geometry (configure s Geometry_User h2o o3 aot km nb))
             \<le> days_in_month (dt_year (nb_scene_date nb))
                  (month (geometry (configure s Geometry_User h2o o3 aot km nb)))
        \<and> ymd2ord (dt_year (nb_scene_date nb))
             (month (geometry (configure s Geometry_User h2o o3 aot km nb)))
             (day (geometry (configure s Geometry_User h2o o3 aot km nb)))
           = utc_ordinal (time_start / 1000))"
proof -
  let ?g = "geometry (configure s Geometry_User h2o o3 aot km nb)"
  have g: "view_z ?g = 0" "month ?g = dt_month (nb_scene_date nb)"
    "day ?g = dt_day (nb_scene_date nb)"
    by (simp_all add: configure_def Let_def)
  have "utcfromtimestamp (time_start / 1000) = Inr (nb_scene_date nb)
        \<and> 1 \<le> month ?g \<and> month ?g \<le> 12 \<and> 1 \<le> day ?g
        \<and> day ?g \<le> days_in_month (dt_year (nb_scene_date nb)) (month ?g)
        \<and> ymd2ord (dt_year (nb_scene_date nb)) (month ?g) (day ?g)
             = utc_ordinal (time_start / 1000)"
    if l: "load_scene S2 info = Inr nb" and t: "info ''system:time_start'' = Some time_start"
  proof -
    have u: "utcfromtimestamp (time_start / 1000) = Inr (nb_scene_date nb)"
      using load_scene_Inr(3) [OF l] t by auto
    from utcfromtimestamp_date [OF u] u show ?thesis
      unfolding g by simp
  qed
  with g show ?thesis by blast
qed

theorem configure_geometry_witness:
  "load_scene example_S2 example_info = Inr example_nb
   \<and> view_z (geometry (configure example_s example_Geometry_User 2 0.3 0.1 0.05 example_nb)) = 0
   \<and> month (geometry (configure example_s example_Geometry_User 2 0.3 0.1 0.05 example_nb)) = 1
   \<and> day (geometry (configure example_s example_Geometry_User 2 0.3 0.1 0.05 example_nb)) = 1
   \<and> ymd2ord 2017 1 1 = utc_ordinal (1483228800000 / 1000)"
proof -
  let ?g = "geometry (configure example_s example_Geometry_User 2 0.3 0.1 0.05 example_nb)"
  have t: "example_info ''system:time_start'' = Some 1483228800000"
    by (simp add: example_info_def)
  have d: "dt_year (nb_scene_date example_nb) = 2017" "dt_month (nb_scene_date example_nb) = 1"
    "dt_day (nb_scene_date example_nb) = 1"
    by (simp_all add: example_nb_def example_date_def)
  note c = configure_geometry [of example_s example_Geometry_User 2 "0.3" "0.1" "0.05"
      example_nb example_S2 example_info 1483228800000, unfolded d]
  from c have g: "view_z ?g = 0" "month ?g = 1" "day ?g = 1"
    by blast+
  from c example_load_scene t
  have "ymd2ord 2017 (month ?g) (day ?g) = utc_ordinal (1483228800000 / 1000)"
    by blast
  then have "ymd2ord 2017 1 1 = utc_ordinal (1483228800000 / 1000)"
    unfolding g .
  with g example_load_scene show ?thesis by blast
qed

subsection \<open>The spectral response table\<close>

lemma bandSelect_keys: "map fst bandSelect = s2_band_names"
  by (simp add: bandSelect_def s2_band_names_def)

text \<open>
  Claim C10. The spectral response lookup succeeds exactly for the twelve band names
  B1 to B12: the \<open>i\<close>-th name gives the \<open>i\<close>-th predefined Sentinel-2A wavelength, and
  every other string raises \<^verbatim>\<open>KeyError\<close>.
\<close>

theorem spectralResponseFunction_table:
  "(\<forall>i < 12. spectralResponseFunction (s2_band_names ! i)
               = Inr (Wavelength (Predefined (s2_wavelengths ! i))))
   \<and> (\<forall>bandname. bandname \<notin> set s2_band_names
         \<longrightarrow> spectralResponseFunction bandname = Inl (KeyError bandname))
   \<and> (\<forall>bandname. (\<exists>w. spectralResponseFunction bandname = Inr w)
         \<longleftrightarrow> bandname \<in> set s2_band_names)"
proof (intro conjI allI impI)
  fix i :: nat
  assume "i < 12"
  then have "i = 0 \<or> i = 1 \<or> i = 2 \<or> i = 3 \<or> i = 4 \<or> i = 5 \<or> i = 6 \<or> i = 7
      \<or> i = 8 \<or> i = 9 \<or> i = 10 \<or> i = 11"
    by arith
  then show "spectralResponseFunction (s2_band_names ! i)
               = Inr (Wavelength (Predefined (s2_wavelengths ! i)))"
    by (elim disjE)
      (simp_all add: spectralResponseFunction_def bandSelect_def s2_band_names_def
        s2_wavelengths_def)
next
  fix bandname
  assume "bandname \<notin> set s2_band_names"
  then have "map_of bandSelect bandname = None"
    by (simp add: map_of_eq_None_iff bandSelect_keys [symmetric])
  then show "spectralResponseFunction bandname = Inl (KeyError bandname)"
    by (simp add: spectralResponseFunction_def)
next
  fix bandname
  have "(map_of bandSelect bandname = None) = (bandname \<notin> set s2_band_names)"
    by (simp add: map_of_eq_None_iff bandSelect_keys [symmetric])
  then show "(\<exists>w. spectralResponseFunction bandname = Inr w) \<longleftrightarrow> bandname \<in> set s2_band_names"
    by (auto simp: spectralResponseFunction_def split: option.splits)
qed

theorem spectralResponseFunction_table_witness:
  "spectralResponseFunction ''B4'' = Inr (Wavelength (Predefined S2A_MSI_04))
   \<and> spectralResponseFunction ''B8A'' = Inl (KeyError ''B8A'')"
proof -
  have a: "(3::nat) < 12"
    by simp
  have b: "''B8A'' \<notin> set s2_band_names"
    by (simp add: s2_band_names_def)
  from spectralResponseFunction_table a b
  have "spectralResponseFunction (s2_band_names ! 3)
          = Inr (Wavelength (Predefined (s2_wavelengths ! 3)))"
    and "spectralResponseFunction ''B8A'' = Inl (KeyError ''B8A'')"
    by blast+
  then show ?thesis
    by (simp add: s2_band_names_def s2_wavelengths_def)
qed

end
